theory Spec2Isabelle
  imports Main
begin

section \<open>Calendar backend: the slot generator of \<open>GET /availability\<close>\<close>

text \<open>
  Source: \<open>get_availability\<close> in \<open>src/backend.py\<close> (the same body is in
  \<open>src/tailortalk-backend/api.py\<close>).

  An aware \<open>datetime\<close> is modelled by the instant it denotes: the number of
  microseconds since 1970-01-01T00:00:00 UTC, an unbounded \<open>int\<close>. Python compares
  aware datetimes by their instant, \<open>+ timedelta(minutes=30)\<close> adds 1800000000
  microseconds, and \<open>isoformat()\<close> of the stride instants (all carrying the offset of
  \<open>start\<close>) is injective, so the returned strings are modelled by their instants.
  Python's year range 1..9999 is not modelled. \<open>Asia/Kolkata\<close> is taken at its
  offset +05:30, in force since 1945.
\<close>

type_synonym instant = int

definition minutes30 :: int where
  "minutes30 = 1800000000"

definition local_hour :: "instant \<Rightarrow> int" where
  \<comment> \<open>\<open>t.astimezone(pytz.timezone('Asia/Kolkata')).hour\<close>\<close>
  "local_hour t = ((t + 19800000000) div 3600000000) mod 24"

definition local_minute :: "instant \<Rightarrow> int" where
  \<comment> \<open>\<open>t.astimezone(pytz.timezone('Asia/Kolkata')).minute\<close>\<close>
  "local_minute t = ((t + 19800000000) div 60000000) mod 60"

text \<open>
  What a FastAPI handler raises: \<open>HTTPException(status_code=...)\<close>.
\<close>

datatype http_exception = HTTPException nat

text \<open>
  \<open>busy_slots\<close> holds, per calendar event, \<open>event['start'].get('dateTime')\<close> and
  \<open>event['end'].get('dateTime')\<close>. A field is \<open>None\<close> here when the event has no
  \<open>dateTime\<close> (an all-day event) or the string is not an aware ISO datetime: using it
  raises inside the handler's \<open>try\<close>, which answers 500.
\<close>

record busy_slot =
  bs_start :: "instant option"
  bs_end :: "instant option"

text \<open>
  The generator expression of line 125-126, with Python's short-circuit \<open>and\<close>: the end
  is only read when the start is before \<open>slot_end\<close>.
\<close>

definition overlaps :: "busy_slot \<Rightarrow> instant \<Rightarrow> instant \<Rightarrow> http_exception + bool" where
  "overlaps slot slot_end current_time =
     (case bs_start slot of
        None \<Rightarrow> Inl (HTTPException 500)
      | Some s \<Rightarrow>
          if s < slot_end then
            (case bs_end slot of
               None \<Rightarrow> Inl (HTTPException 500)
             | Some e \<Rightarrow> Inr (e > current_time))
          else Inr False)"

text \<open>\<open>any(...)\<close> stops at the first true element, or at the first one that raises.\<close>

fun any_overlap :: "busy_slot list \<Rightarrow> instant \<Rightarrow> instant \<Rightarrow> http_exception + bool" where
  "any_overlap [] slot_end current_time = Inr False"
| "any_overlap (slot # busy_slots) slot_end current_time =
     (case overlaps slot slot_end current_time of
        Inl e \<Rightarrow> Inl e
      | Inr True \<Rightarrow> Inr True
      | Inr False \<Rightarrow> any_overlap busy_slots slot_end current_time)"

text \<open>The \<open>while current_time < end_time\<close> loop of lines 119-130.\<close>

function slot_loop ::
  "instant \<Rightarrow> instant \<Rightarrow> busy_slot list \<Rightarrow> instant list \<Rightarrow> http_exception + instant list" where
  "slot_loop current_time end_time busy_slots available_slots =
     (if current_time < end_time then
        (let slot_end = current_time + minutes30 in
         if 9 \<le> local_hour current_time \<and> local_hour current_time < 18 then
           (case any_overlap busy_slots slot_end current_time of
              Inl e \<Rightarrow> Inl e
            | Inr True \<Rightarrow> slot_loop slot_end end_time busy_slots available_slots
            | Inr False \<Rightarrow>
                slot_loop slot_end end_time busy_slots (available_slots @ [current_time]))
         else slot_loop slot_end end_time busy_slots available_slots)
      else Inr available_slots)"
  by pat_completeness auto
termination
  by (relation "measure (\<lambda>(c, e, b, a). nat (e - c))") (auto simp: minutes30_def)

declare slot_loop.simps [simp del]

text \<open>
  The handler. \<open>start\<close> and \<open>end\<close> are the results of \<open>datetime.fromisoformat\<close>
  (\<open>None\<close> for the \<open>ValueError\<close>, answered 400); \<open>calendar\<close> is what listing the
  calendar's events gives: the busy list, or the exception the handler ends with when
  the calendar service fails.
\<close>

definition get_availability ::
  "instant option \<Rightarrow> instant option \<Rightarrow> (http_exception + busy_slot list)
     \<Rightarrow> http_exception + instant list" where
  "get_availability start end calendar =
     (case (start, end) of
        (Some start_time, Some end_time) \<Rightarrow>
          if start_time \<ge> end_time then Inl (HTTPException 400)
          else (case calendar of
                  Inl e \<Rightarrow> Inl e
                | Inr busy_slots \<Rightarrow> slot_loop start_time end_time busy_slots [])
      | _ \<Rightarrow> Inl (HTTPException 400))"

text \<open>
  The specification's side of the slot generator: the instants at a 30-minute stride
  from \<open>range_start\<close>, below \<open>range_end\<close>, in ascending order.
\<close>

definition stride_instants :: "instant \<Rightarrow> instant \<Rightarrow> instant list" where
  "stride_instants range_start range_end =
     map (\<lambda>k. range_start + int k * minutes30)
       [0 ..< nat ((range_end - range_start + minutes30 - 1) div minutes30)]"

definition business_hours :: "instant \<Rightarrow> bool" where
  "business_hours t \<longleftrightarrow> 9 \<le> local_hour t \<and> local_hour t < 18"

definition event_overlaps :: "busy_slot \<Rightarrow> instant \<Rightarrow> bool" where
  \<comment> \<open>\<open>event.start < slot_end AND event.end > slot_start\<close>, with \<open>slot_end = slot + 30 minutes\<close>\<close>
  "event_overlaps ev slot =
     (case (bs_start ev, bs_end ev) of
        (Some s, Some e) \<Rightarrow> s < slot + minutes30 \<and> e > slot
      | _ \<Rightarrow> False)"

definition free_slot :: "busy_slot list \<Rightarrow> instant \<Rightarrow> bool" where
  "free_slot busy_slots t \<longleftrightarrow>
     (\<forall>ev \<in> set busy_slots. overlaps ev (t + minutes30) t = Inr False)"

definition well_formed :: "busy_slot \<Rightarrow> bool" where
  "well_formed ev \<longleftrightarrow> bs_start ev \<noteq> None \<and> bs_end ev \<noteq> None"

section \<open>Chat agent: strings and the two regular expressions\<close>

text \<open>
  Source: \<open>src/app.py\<close>. A Python \<open>str\<close> is modelled as a \<open>string\<close> of ASCII
  characters: \<open>lower\<close>, \<open>strip\<close>, \<open>\d\<close> and \<open>\s\<close> are Python's on ASCII text
  (Python's treatment of other Unicode digits, spaces and case pairs is outside the
  model).
\<close>

definition is_space :: "char \<Rightarrow> bool" where
  \<comment> \<open>\<open>str.isspace\<close> and the regex class \<open>\s\<close> on ASCII: TAB, LF, VT, FF, CR, FS, GS, RS, US, space\<close>
  "is_space c \<longleftrightarrow>
     (let n = (of_char c :: nat) in (9 \<le> n \<and> n \<le> 13) \<or> (28 \<le> n \<and> n \<le> 32))"

definition is_digit :: "char \<Rightarrow> bool" where
  "is_digit c \<longleftrightarrow> (let n = (of_char c :: nat) in 48 \<le> n \<and> n \<le> 57)"

definition digit_val :: "char \<Rightarrow> nat" where
  "digit_val c = (of_char c :: nat) - 48"

definition lower_char :: "char \<Rightarrow> char" where
  "lower_char c =
     (let n = (of_char c :: nat) in if 65 \<le> n \<and> n \<le> 90 then char_of (n + 32) else c)"

definition lower :: "string \<Rightarrow> string" where
  "lower s = map lower_char s"

definition strip :: "string \<Rightarrow> string" where
  "strip s = rev (dropWhile is_space (rev (dropWhile is_space s)))"

fun starts_with :: "string \<Rightarrow> string \<Rightarrow> bool" where
  "starts_with [] s = True"
| "starts_with (p # ps) [] = False"
| "starts_with (p # ps) (c # cs) = (p = c \<and> starts_with ps cs)"

text \<open>Python's \<open>sub in s\<close> on strings.\<close>

fun contains :: "string \<Rightarrow> string \<Rightarrow> bool" where
  "contains sub [] = starts_with sub []"
| "contains sub (c # cs) = (starts_with sub (c # cs) \<or> contains sub cs)"

text \<open>Python's \<open>str(i)\<close> for a non-negative integer.\<close>

fun digits_of :: "nat \<Rightarrow> nat \<Rightarrow> string" where
  \<comment> \<open>the decimal digits of \<open>n\<close>, at most \<open>Suc fuel\<close> of them\<close>
  "digits_of 0 n = [char_of (48 + n mod 10)]"
| "digits_of (Suc fuel) n =
     (if n < 10 then [char_of (48 + n)] else digits_of fuel (n div 10) @ [char_of (48 + n mod 10)])"

definition str :: "nat \<Rightarrow> string" where
  \<comment> \<open>a number below \<open>10 ^ (n + 1)\<close> has at most \<open>n + 1\<close> digits, so \<open>n\<close> steps are enough\<close>
  "str n = digits_of n n"

text \<open>\<open>"sep".join(parts)\<close>.\<close>

fun join :: "string \<Rightarrow> string list \<Rightarrow> string" where
  "join sep [] = []"
| "join sep [x] = x"
| "join sep (x # y # ys) = x @ sep @ join sep (y # ys)"

subsection \<open>The pieces of a backtracking match\<close>

text \<open>
  Python's \<open>re\<close> matches by backtracking. Each piece of a pattern is modelled by the
  list of ways it can match at the front of a string, in the order the matcher tries
  them (a greedy quantifier tries the longest first); a way is what it captured and
  the string that remains. The match at a position is the first complete path.
\<close>

definition digits_1_2 :: "string \<Rightarrow> (nat \<times> string) list" where
  \<comment> \<open>\<open>(\d{1,2})\<close>, with \<open>int(...)\<close> of the group\<close>
  "digits_1_2 s =
     (case s of
        c1 # c2 # r \<Rightarrow>
          (if is_digit c1 \<and> is_digit c2 then [(10 * digit_val c1 + digit_val c2, r)] else [])
          @ (if is_digit c1 then [(digit_val c1, c2 # r)] else [])
      | [c1] \<Rightarrow> (if is_digit c1 then [(digit_val c1, [])] else [])
      | [] \<Rightarrow> [])"

definition optional_minutes :: "string \<Rightarrow> string list" where
  \<comment> \<open>\<open>(?::(\d{2}))?\<close>: with the group first, then without\<close>
  "optional_minutes s =
     (case s of
        c # d1 # d2 # r \<Rightarrow>
          (if c = CHR '':'' \<and> is_digit d1 \<and> is_digit d2 then [r] else [])
      | _ \<Rightarrow> [])
     @ [s]"

definition spaces :: "string \<Rightarrow> string list" where
  \<comment> \<open>\<open>\s*\<close>: all the leading whitespace first, then one character less, down to none\<close>
  "spaces s = map (\<lambda>k. drop k s) (rev [0 ..< Suc (length (takeWhile is_space s))])"

definition spaces1 :: "string \<Rightarrow> string list" where
  \<comment> \<open>\<open>\s+\<close>: as \<open>\s*\<close>, but at least one character\<close>
  "spaces1 s = map (\<lambda>k. drop k s) (rev [1 ..< Suc (length (takeWhile is_space s))])"

definition literal :: "string \<Rightarrow> string \<Rightarrow> string list" where
  "literal w s = (if starts_with w s then [drop (length w) s] else [])"

definition alternatives :: "string list \<Rightarrow> string \<Rightarrow> (string \<times> string) list" where
  \<comment> \<open>\<open>(w1|w2|...)\<close>: the words in their order, each with what remains\<close>
  "alternatives ws s = concat (map (\<lambda>w. map (\<lambda>r. (w, r)) (literal w s)) ws)"

definition digits_4 :: "string \<Rightarrow> (nat \<times> string) list" where
  \<comment> \<open>\<open>(\d{4})\<close>, with \<open>int(...)\<close> of the group\<close>
  "digits_4 s =
     (case s of
        c1 # c2 # c3 # c4 # r \<Rightarrow>
          (if is_digit c1 \<and> is_digit c2 \<and> is_digit c3 \<and> is_digit c4
           then [(1000 * digit_val c1 + 100 * digit_val c2 + 10 * digit_val c3 + digit_val c4, r)]
           else [])
      | _ \<Rightarrow> [])"

definition first_path :: "'a list \<Rightarrow> 'a option" where
  "first_path ps = (case ps of [] \<Rightarrow> None | p # _ \<Rightarrow> Some p)"

subsection \<open>\<open>(\d{1,2})(?::(\d{2}))?\s*(am|pm)\<close>\<close>

text \<open>
  A match at the front of \<open>s\<close>: group 1 as an integer, group 3, and the number of
  characters matched.
\<close>

definition time_match_at :: "string \<Rightarrow> (nat \<times> string \<times> nat) option" where
  "time_match_at s =
     first_path
       (concat (map (\<lambda>(hour, r1).
          concat (map (\<lambda>r2.
            concat (map (\<lambda>r3.
              map (\<lambda>(meridian, r4). (hour, meridian, length s - length r4))
                (alternatives [''am'', ''pm''] r3))
              (spaces r2)))
            (optional_minutes r1)))
          (digits_1_2 s)))"

text \<open>
  \<open>re.finditer\<close>: the matches from left to right, not overlapping. \<open>skip\<close> counts the
  characters of the last match that are still ahead.
\<close>

fun time_finditer :: "nat \<Rightarrow> string \<Rightarrow> (nat \<times> string) list" where
  "time_finditer skip [] = []"
| "time_finditer (Suc skip) (c # cs) = time_finditer skip cs"
| "time_finditer 0 (c # cs) =
     (case time_match_at (c # cs) of
        Some (hour, meridian, n) \<Rightarrow> (hour, meridian) # time_finditer (n - 1) cs
      | None \<Rightarrow> time_finditer 0 cs)"

subsection \<open>The date pattern of \<open>parse_user_date\<close>\<close>

definition month_names :: "string list" where
  "month_names =
     [''january'', ''february'', ''march'', ''april'', ''may'', ''june'',
      ''july'', ''august'', ''september'', ''october'', ''november'', ''december'']"

text \<open>
  \<open>(january|...|december)\s+(\d{1,2}),\s*(\d{4})\<close> at the front of \<open>s\<close>: the month
  name, \<open>int\<close> of the day group and \<open>int\<close> of the year group.
\<close>

definition date_match_at :: "string \<Rightarrow> (string \<times> nat \<times> nat) option" where
  "date_match_at s =
     first_path
       (concat (map (\<lambda>(month, r1).
          concat (map (\<lambda>r2.
            concat (map (\<lambda>(day, r3).
              concat (map (\<lambda>r4.
                concat (map (\<lambda>r5.
                  map (\<lambda>(year, r6). (month, day, year)) (digits_4 r5))
                  (spaces r4)))
                (literal '','' r3)))
              (digits_1_2 r2)))
            (spaces1 r1)))
          (alternatives month_names s)))"

text \<open>\<open>re.search\<close>: the match at the leftmost position that has one.\<close>

fun date_search :: "string \<Rightarrow> (string \<times> nat \<times> nat) option" where
  "date_search [] = None"
| "date_search (c # cs) =
     (case date_match_at (c # cs) of
        Some m \<Rightarrow> Some m
      | None \<Rightarrow> date_search cs)"

section \<open>Chat agent: dates and \<open>parse_user_date\<close>\<close>

text \<open>
  Python exceptions, each with the text \<open>str(e)\<close> is built from.
\<close>

datatype py_exception =
    IndexError string
  | KeyError string
  | ValueError string
  | OverflowError string
  | OtherException string

fun str_exception :: "py_exception \<Rightarrow> string" where
  "str_exception (KeyError k) = [CHR 0x27] @ k @ [CHR 0x27]"
| "str_exception (IndexError m) = m"
| "str_exception (ValueError m) = m"
| "str_exception (OverflowError m) = m"
| "str_exception (OtherException m) = m"

text \<open>
  A \<open>datetime\<close> with \<open>tzinfo=pytz.UTC\<close>: the proleptic Gregorian ordinal of its date
  (\<open>date.toordinal()\<close>, day 1 is 0001-01-01) and the microsecond of the day. The
  calendar arithmetic is CPython's (\<open>_days_before_year\<close>, \<open>_days_in_month\<close>,
  \<open>_ymd2ord\<close>).
\<close>

record datetime =
  ordinal :: int
  micros :: int

definition is_leap :: "int \<Rightarrow> bool" where
  "is_leap year \<longleftrightarrow> year mod 4 = 0 \<and> (year mod 100 \<noteq> 0 \<or> year mod 400 = 0)"

definition days_in_month :: "int \<Rightarrow> nat \<Rightarrow> int" where
  "days_in_month year month =
     (if month = 2 then (if is_leap year then 29 else 28)
      else if month = 4 \<or> month = 6 \<or> month = 9 \<or> month = 11 then 30
      else 31)"

definition days_before_year :: "int \<Rightarrow> int" where
  "days_before_year year =
     (year - 1) * 365 + (year - 1) div 4 - (year - 1) div 100 + (year - 1) div 400"

definition days_before_month :: "int \<Rightarrow> nat \<Rightarrow> int" where
  "days_before_month year month = sum_list (map (days_in_month year) [1 ..< month])"

definition ymd2ord :: "int \<Rightarrow> nat \<Rightarrow> int \<Rightarrow> int" where
  "ymd2ord year month day = days_before_year year + days_before_month year month + day"

definition max_ordinal :: int where
  \<comment> \<open>\<open>date.max.toordinal()\<close>, 9999-12-31\<close>
  "max_ordinal = 3652059"

text \<open>
  \<open>datetime(year, month, day, tzinfo=pytz.UTC)\<close> with a month in 1..12: a
  \<open>ValueError\<close> for a year outside 1..9999 or a day the month does not have.
\<close>

definition new_datetime :: "int \<Rightarrow> nat \<Rightarrow> int \<Rightarrow> py_exception + datetime" where
  "new_datetime year month day =
     (if year < 1 \<or> year > 9999 then
        Inl (ValueError (''year '' @ str (nat year) @ '' is out of range''))
      else if day < 1 \<or> day > days_in_month year month then
        Inl (ValueError ''day is out of range for month'')
      else Inr \<lparr>ordinal = ymd2ord year month day, micros = 0\<rparr>)"

text \<open>\<open>d + timedelta(days=n)\<close>: an \<open>OverflowError\<close> beyond year 9999.\<close>

definition add_days :: "datetime \<Rightarrow> int \<Rightarrow> py_exception + datetime" where
  "add_days d n =
     (if ordinal d + n < 1 \<or> ordinal d + n > max_ordinal then
        Inl (OverflowError ''date value out of range'')
      else Inr (d\<lparr>ordinal := ordinal d + n\<rparr>))"

text \<open>
  The same sum on dates computed from the clock (\<open>today\<close>, \<open>now\<close>): the clock is taken
  to be more than a week before 9999-12-31, so these sums do not overflow.
\<close>

definition plus_days :: "datetime \<Rightarrow> int \<Rightarrow> datetime" where
  "plus_days d n = d\<lparr>ordinal := ordinal d + n\<rparr>"

definition at_hour :: "datetime \<Rightarrow> int \<Rightarrow> datetime" where
  \<comment> \<open>\<open>d.replace(hour=h, minute=0, second=0, microsecond=0)\<close>\<close>
  "at_hour d h = d\<lparr>micros := h * 3600000000\<rparr>"

definition midnight :: "int \<Rightarrow> datetime" where
  \<comment> \<open>\<open>datetime.combine(date, datetime.min.time(), tzinfo=pytz.UTC)\<close>\<close>
  "midnight date = \<lparr>ordinal = date, micros = 0\<rparr>"

definition weekday :: "int \<Rightarrow> int" where
  \<comment> \<open>\<open>date.weekday()\<close>: Monday is 0\<close>
  "weekday date = (date + 6) mod 7"

definition to_instant :: "datetime \<Rightarrow> instant" where
  \<comment> \<open>microseconds since 1970-01-01T00:00:00 UTC, whose ordinal is 719163\<close>
  "to_instant d = (ordinal d - 719163) * 86400000000 + micros d"

definition day_map :: "int \<Rightarrow> (string \<times> int) list" where
  \<comment> \<open>the dict of lines 101-111, in its insertion order\<close>
  "day_map today =
     [(''today'', today),
      (''tomorrow'', today + 1),
      (''monday'', today + (0 - weekday today) mod 7),
      (''tuesday'', today + (1 - weekday today) mod 7),
      (''wednesday'', today + (2 - weekday today) mod 7),
      (''thursday'', today + (3 - weekday today) mod 7),
      (''friday'', today + (4 - weekday today) mod 7),
      (''saturday'', today + (5 - weekday today) mod 7),
      (''sunday'', today + (6 - weekday today) mod 7)]"

definition month_map :: "string \<Rightarrow> py_exception + nat" where
  "month_map month =
     (case map_of (zip month_names [1 ..< 13]) month of
        Some n \<Rightarrow> Inr n
      | None \<Rightarrow> Inl (KeyError month))"

text \<open>
  Lines 113-119: the first key of \<open>day_map\<close> that occurs in the message gives the
  day, from midnight to the next midnight.
\<close>

definition keyword_range :: "int \<Rightarrow> string \<Rightarrow> datetime option \<times> datetime option" where
  "keyword_range today message =
     (case find (\<lambda>(day, date). contains day message) (day_map today) of
        Some (day, date) \<Rightarrow> (Some (midnight date), Some (plus_days (midnight date) 1))
      | None \<Rightarrow> (None, None))"

text \<open>
  Lines 121-132: when the date pattern matches, both variables are assigned again from
  the match; the constructor and the sum may raise.
\<close>

definition explicit_range ::
  "string \<Rightarrow> datetime option \<times> datetime option
     \<Rightarrow> py_exception + (datetime option \<times> datetime option)" where
  "explicit_range message resolved =
     (case date_search message of
        None \<Rightarrow> Inr resolved
      | Some (month, day, year) \<Rightarrow>
          (case month_map month of
             Inl e \<Rightarrow> Inl e
           | Inr m \<Rightarrow>
               (case new_datetime (int year) m (int day) of
                  Inl e \<Rightarrow> Inl e
                | Inr start_date \<Rightarrow>
                    (case add_days start_date 1 of
                       Inl e \<Rightarrow> Inl e
                     | Inr end_date \<Rightarrow> Inr (Some start_date, Some end_date)))))"

definition any_slot_keyword :: "string \<Rightarrow> bool" where
  "any_slot_keyword message \<longleftrightarrow>
     contains ''any slot'' message \<or> contains ''any time'' message \<or>
     contains ''whole day'' message \<or> contains ''all day'' message"

text \<open>Lines 134-139.\<close>

definition narrow_range ::
  "datetime \<Rightarrow> string \<Rightarrow> datetime option \<times> datetime option
     \<Rightarrow> datetime option \<times> datetime option" where
  "narrow_range now message resolved =
     (case resolved of (start_date, end_date) \<Rightarrow>
        if start_date \<noteq> None \<and> contains ''afternoon'' message then
          (case start_date of
             Some s \<Rightarrow> (Some (at_hour s 12), Some (at_hour (at_hour s 12) 18))
           | None \<Rightarrow> resolved)
        else if any_slot_keyword message then
          (let start_date' =
                 (case start_date of
                    Some s \<Rightarrow> at_hour s 9
                  | None \<Rightarrow> at_hour (plus_days now 1) 9)
           in (Some start_date', Some (at_hour start_date' 18)))
        else resolved)"

definition parse_user_date ::
  "datetime \<Rightarrow> string \<Rightarrow> py_exception + (datetime option \<times> datetime option)" where
  "parse_user_date now msg =
     (let message = lower msg;
          today = ordinal now
      in case explicit_range message (keyword_range today message) of
           Inl e \<Rightarrow> Inl e
         | Inr resolved \<Rightarrow> Inr (narrow_range now message resolved))"

section \<open>Chat agent: state, environment and the graph's nodes\<close>

text \<open>
  A message of \<open>state["messages"]\<close> is a dict with a \<open>role\<close> and either a
  \<open>content\<close> or an \<open>error\<close> key; \<open>msg["content"]\<close> raises \<open>KeyError\<close> on the second
  kind.
\<close>

datatype role = user | assistant

datatype turn = Content string role | Error string role

record event =
  ev_id :: string
  ev_summary :: "string option"
  ev_start :: "instant option"

text \<open>
  \<open>AgentState\<close>. A slot string of \<open>suggested_slots\<close> is an ISO datetime written by
  \<open>check_availability_node\<close>; it is modelled by its instant, and \<open>confirmed_slot\<close> by
  \<open>None\<close> for the initial empty string.
\<close>

record agent_state =
  messages :: "turn list"
  intent :: string
  suggested_slots :: "instant list"
  confirmed_slot :: "instant option"
  time_zone :: string
  events :: "event list"

text \<open>The three prompt templates, with their arguments.\<close>

datatype prompt =
    intention_prompt string string
  | suggestion_prompt string "string list" string
  | confirmation_prompt string string string

text \<open>
  What an \<open>httpx\<close> request gives: the decoded body; \<open>raise_for_status()\<close> raising
  \<open>HTTPStatusError\<close> (with its text); or any other exception (a transport error, a
  body of another shape), which no handler of the nodes catches.
\<close>

datatype 'a response = Ok 'a | HTTPStatusError string | RequestFailed py_exception

text \<open>
  Everything outside the program, for one turn: the clock, the language model
  (\<open>Inl\<close> is the text of the exception \<open>llm.invoke\<close> raised, \<open>Inr\<close> is
  \<open>response.content\<close>), the calendar backend behind \<open>BACKEND_URL\<close>, and two library
  functions that are not modelled further: \<open>dateutil\<close>'s
  \<open>parser.parse(message, fuzzy=True).time()\<close> as its hour and minute (\<open>None\<close> when it
  raises), and \<open>astimezone(tz).strftime("%B %d, %Y, %I:%M %p")\<close>.
\<close>

record env =
  now :: datetime
  llm :: "prompt \<Rightarrow> string + string"
  parse_time :: "string \<Rightarrow> (int \<times> int) option"
  strftime :: "instant \<Rightarrow> string"
  availability :: "instant \<Rightarrow> instant \<Rightarrow> instant list response"
  book :: "instant \<Rightarrow> instant \<Rightarrow> string response"
  upcoming_events :: "event list response"
  cancel :: "string \<Rightarrow> unit response"

text \<open>
  The calls a node makes to the outside, in order. A node gives its calls and either
  the exception that leaves it or the state it returns.
\<close>

datatype call =
    LLM prompt
  | GetAvailability instant instant
  | PostBook instant instant
  | GetUpcomingEvents
  | DeleteCancel string

type_synonym outcome = "call list \<times> (py_exception + agent_state)"

definition content :: "turn \<Rightarrow> py_exception + string" where
  \<comment> \<open>\<open>msg["content"]\<close>\<close>
  "content msg = (case msg of Content c r \<Rightarrow> Inr c | Error e r \<Rightarrow> Inl (KeyError ''content''))"

definition last_content :: "turn list \<Rightarrow> py_exception + string" where
  \<comment> \<open>\<open>state["messages"][-1]["content"]\<close>\<close>
  "last_content msgs =
     (if msgs = [] then Inl (IndexError ''list index out of range'') else content (last msgs))"

fun contents :: "turn list \<Rightarrow> py_exception + string list" where
  "contents [] = Inr []"
| "contents (msg # msgs) =
     (case content msg of
        Inl e \<Rightarrow> Inl e
      | Inr c \<Rightarrow> (case contents msgs of Inl e \<Rightarrow> Inl e | Inr cs \<Rightarrow> Inr (c # cs)))"

definition history :: "turn list \<Rightarrow> py_exception + string" where
  \<comment> \<open>\<open>"\n".join(msg["content"] for msg in state["messages"][:-1])\<close>\<close>
  "history msgs =
     (case contents (butlast msgs) of Inl e \<Rightarrow> Inl e | Inr cs \<Rightarrow> Inr (join [CHR 0x0A] cs))"

definition append_turn :: "agent_state \<Rightarrow> turn \<Rightarrow> agent_state" where
  \<comment> \<open>\<open>state["messages"].append(...)\<close>\<close>
  "append_turn state t = state\<lparr>messages := messages state @ [t]\<rparr>"

subsection \<open>\<open>identify_intent\<close> and \<open>route\<close>\<close>

definition identify_intent :: "env \<Rightarrow> agent_state \<Rightarrow> outcome" where
  "identify_intent \<E> state =
     (case last_content (messages state) of
        Inl e \<Rightarrow> ([], Inl e)
      | Inr message \<Rightarrow>
          (case history (messages state) of
             Inl e \<Rightarrow> ([], Inl e)
           | Inr hist \<Rightarrow>
               (case llm \<E> (intention_prompt message hist) of
                  Inr response \<Rightarrow>
                    ([LLM (intention_prompt message hist)],
                     Inr (state\<lparr>intent := strip response\<rparr>))
                | Inl e \<Rightarrow>
                    ([LLM (intention_prompt message hist)],
                     Inr ((append_turn state
                             (Error (''Error processing request: '' @ e @ ''. Please try again.'')
                                assistant))
                           \<lparr>intent := ''unclear''\<rparr>)))))"

definition route :: "agent_state \<Rightarrow> string" where
  "route state =
     (if intent state = ''book_appointment'' then ''check_availability''
      else if intent state = ''check_availability'' then ''check_availability''
      else if intent state = ''confirm_booking'' then ''confirm_booking''
      else if intent state = ''cancel'' then ''cancel''
      else ''suggest_slots'')"

subsection \<open>\<open>check_availability_node\<close>\<close>

definition default_range :: "datetime \<Rightarrow> datetime \<times> datetime" where
  \<comment> \<open>lines 151-152: tomorrow at midnight, and seven days later\<close>
  "default_range now' =
     (let start_date = at_hour (plus_days now' 1) 0 in (start_date, plus_days start_date 7))"

definition requested_range :: "datetime \<Rightarrow> string \<Rightarrow> py_exception + (datetime \<times> datetime)" where
  \<comment> \<open>lines 149-152; \<open>end_date\<close> is never \<open>None\<close> when \<open>start_date\<close> is not\<close>
  "requested_range now' message =
     (case parse_user_date now' message of
        Inl e \<Rightarrow> Inl e
      | Inr (start_date, end_date) \<Rightarrow>
          (case (start_date, end_date) of
             (Some s, Some e) \<Rightarrow> Inr (s, e)
           | (Some s, None) \<Rightarrow>
               Inl (OtherException ''NoneType object has no attribute astimezone'')
           | (None, _) \<Rightarrow> Inr (default_range now')))"

definition check_availability_node :: "env \<Rightarrow> agent_state \<Rightarrow> outcome" where
  "check_availability_node \<E> state =
     (case last_content (messages state) of
        Inl e \<Rightarrow> ([], Inl e)
      | Inr c \<Rightarrow>
          (case requested_range (now \<E>) (lower (strip c)) of
             Inl e \<Rightarrow> ([], Inl e)
           | Inr (start_date, end_date) \<Rightarrow>
               (let a = to_instant start_date; b = to_instant end_date in
                case availability \<E> a b of
                  Ok slots \<Rightarrow>
                    ([GetAvailability a b],
                     Inr (append_turn (state\<lparr>suggested_slots := slots\<rparr>)
                            (Content (''Available slots in Asia/Kolkata: ''
                                        @ join '', '' (map (strftime \<E>) (take 5 slots)))
                               assistant)))
                | HTTPStatusError e \<Rightarrow>
                    ([GetAvailability a b],
                     Inr (append_turn state
                            (Error (''Error checking availability: '' @ e) assistant)))
                | RequestFailed e \<Rightarrow> ([GetAvailability a b], Inl e))))"

subsection \<open>\<open>suggest_slots\<close>\<close>

definition greetings :: "string list" where
  "greetings = [''hi'', ''hello'', ''hey'']"

definition hour_24 :: "nat \<times> string \<Rightarrow> int" where
  \<comment> \<open>lines 203-208\<close>
  "hour_24 m =
     (case m of (hour, meridian) \<Rightarrow>
        if meridian = ''pm'' \<and> hour \<noteq> 12 then int hour + 12
        else if meridian = ''am'' \<and> hour = 12 then 0
        else int hour)"

definition requested_hours :: "string \<Rightarrow> int list" where
  \<comment> \<open>lines 200-209\<close>
  "requested_hours message = map hour_24 (time_finditer 0 message)"

definition prioritized_slots :: "string \<Rightarrow> instant list \<Rightarrow> instant list" where
  \<comment> \<open>lines 212-217\<close>
  "prioritized_slots message slots =
     (if requested_hours message \<noteq> [] then
        filter (\<lambda>slot. local_hour slot \<in> set (requested_hours message)) slots
      else [])"

definition any_time_keyword :: "string \<Rightarrow> bool" where
  "any_time_keyword message \<longleftrightarrow>
     contains ''anytime'' message \<or> contains ''whole day'' message \<or>
     contains ''all day'' message \<or> contains ''any slot'' message"

definition filtered_slots :: "string \<Rightarrow> instant list \<Rightarrow> instant list" where
  \<comment> \<open>lines 220-222\<close>
  "filtered_slots message slots =
     (let prioritized = prioritized_slots message slots;
          filtered = (if prioritized \<noteq> [] then prioritized else slots)
      in if prioritized = [] \<and> any_time_keyword message then
           filter (\<lambda>slot. 9 \<le> local_hour slot \<and> local_hour slot < 18) slots
         else filtered)"

definition formatted_slots :: "env \<Rightarrow> string \<Rightarrow> instant list \<Rightarrow> string list" where
  \<comment> \<open>lines 224-227\<close>
  "formatted_slots \<E> message slots = map (strftime \<E>) (take 5 (filtered_slots message slots))"

definition local_hour_of :: "datetime \<Rightarrow> int" where
  \<comment> \<open>\<open>datetime.now(tz).hour\<close>, from the clock's UTC reading\<close>
  "local_hour_of d = local_hour (to_instant d)"

definition suggest_slots :: "env \<Rightarrow> agent_state \<Rightarrow> outcome" where
  "suggest_slots \<E> state =
     (case last_content (messages state) of
        Inl e \<Rightarrow> ([], Inl e)
      | Inr c \<Rightarrow>
          (case history (messages state) of
             Inl e \<Rightarrow> ([], Inl e)
           | Inr hist \<Rightarrow>
               (let message = lower (strip c); slots = suggested_slots state in
                if list_ex (\<lambda>greet. contains greet message) greetings then
                  ([], Inr (append_turn state (Content ''Hi!'' assistant)))
                else if contains ''good morning'' message \<and> local_hour_of (now \<E>) < 12 then
                  ([], Inr (append_turn state (Content ''Good morning!'' assistant)))
                else if slots = [] then
                  ([], Inr (append_turn state
                     (Content ''No available slots found. Please try a different time or date.''
                        assistant)))
                else if formatted_slots \<E> message slots = [] then
                  ([], Inr (append_turn state
                     (Content ''No matching slots found. Would you like to see other time ranges?''
                        assistant)))
                else
                  (let p = suggestion_prompt message (formatted_slots \<E> message slots) hist in
                   case llm \<E> p of
                     Inr response \<Rightarrow>
                       ([LLM p], Inr (append_turn state (Content (strip response) assistant)))
                   | Inl e \<Rightarrow>
                       ([LLM p],
                        Inr (append_turn state
                               (Error (''Error suggesting slots: '' @ e @ ''. Please try again.'')
                                  assistant)))))))"

subsection \<open>\<open>confirm_booking\<close>\<close>

text \<open>The loop of lines 249-252; \<open>i\<close> is the 1-based index of the head of the list.\<close>

fun select_by_index :: "string \<Rightarrow> nat \<Rightarrow> instant list \<Rightarrow> instant option" where
  "select_by_index message i [] = None"
| "select_by_index message i (slot # slots) =
     (if contains (str i) message \<or> contains (''slot '' @ str i) message
         \<or> (contains ''first'' message \<and> i = 1)
      then Some slot
      else select_by_index message (Suc i) slots)"

text \<open>The loop of lines 258-262.\<close>

fun select_by_time :: "int \<times> int \<Rightarrow> instant list \<Rightarrow> instant option" where
  "select_by_time requested_time [] = None"
| "select_by_time requested_time (slot # slots) =
     (if local_hour slot = fst requested_time
         \<and> \<bar>local_minute slot - snd requested_time\<bar> \<le> 15
      then Some slot
      else select_by_time requested_time slots)"

definition select_slot :: "env \<Rightarrow> string \<Rightarrow> instant list \<Rightarrow> instant option" where
  \<comment> \<open>lines 246-268\<close>
  "select_slot \<E> message slots =
     (let selected_slot = select_by_index message 1 slots;
          selected_slot =
            (if selected_slot = None then
               (case parse_time \<E> message of
                  Some requested_time \<Rightarrow> select_by_time requested_time slots
                | None \<Rightarrow> None)
             else selected_slot)
      in if selected_slot = None \<and> slots \<noteq> [] then Some (hd slots) else selected_slot)"



definition confirm_booking :: "env \<Rightarrow> agent_state \<Rightarrow> outcome" where
  "confirm_booking \<E> state =
     (case last_content (messages state) of
        Inl e \<Rightarrow> ([], Inl e)
      | Inr c \<Rightarrow>
          (let message = lower (strip c) in
           case select_slot \<E> message (suggested_slots state) of
             None \<Rightarrow>
               ([], Inr (append_turn state
                  (Content ''No available slots to confirm. Please check availability first.''
                     assistant)))
           | Some selected_slot \<Rightarrow>
               (let state1 = state\<lparr>confirmed_slot := Some selected_slot\<rparr> in
                case history (messages state1) of
                  Inl e \<Rightarrow>
                    ([], Inr (append_turn state1
                       (Error (''Error confirming booking: '' @ str_exception e
                                 @ ''. Please try again.'') assistant)))
                | Inr hist \<Rightarrow>
                    (let p = confirmation_prompt (strftime \<E> selected_slot) message hist in
                     case llm \<E> p of
                       Inl e \<Rightarrow>
                         ([LLM p], Inr (append_turn state1
                            (Error (''Error confirming booking: '' @ e @ ''. Please try again.'')
                               assistant)))
                     | Inr response \<Rightarrow>
                         (let state2 = append_turn state1 (Content (strip response) assistant);
                              start_time = selected_slot;
                              end_time = start_time + minutes30
                          in case book \<E> start_time end_time of
                               Ok m \<Rightarrow>
                                 ([LLM p, PostBook start_time end_time],
                                  Inr (append_turn state2
                                         (Content (''Booking confirmed: '' @ m) assistant)))
                             | HTTPStatusError e \<Rightarrow>
                                 ([LLM p, PostBook start_time end_time],
                                  Inr (append_turn state2
                                         (Error (''Error booking appointment: '' @ e) assistant)))
                             | RequestFailed e \<Rightarrow>
                                 ([LLM p, PostBook start_time end_time], Inl e))))))"

subsection \<open>\<open>cancel_booking\<close>\<close>

text \<open>The lines of \<open>event_list\<close>; \<open>i\<close> is the 0-based index of the head of the list.\<close>

fun event_lines :: "env \<Rightarrow> nat \<Rightarrow> event list \<Rightarrow> py_exception + string list" where
  "event_lines \<E> i [] = Inr []"
| "event_lines \<E> i (e # es) =
     (case ev_summary e of
        None \<Rightarrow> Inl (KeyError ''summary'')
      | Some summary \<Rightarrow>
          (case ev_start e of
             None \<Rightarrow> Inl (KeyError ''dateTime'')
           | Some t \<Rightarrow>
               (case event_lines \<E> (Suc i) es of
                  Inl x \<Rightarrow> Inl x
                | Inr ls \<Rightarrow>
                    Inr ((str (i + 1) @ ''. '' @ summary @ '' at '' @ strftime \<E> t) # ls))))"

text \<open>The loop of lines 333-336: the first 0-based index whose number occurs.\<close>

fun selected_event :: "string \<Rightarrow> nat \<Rightarrow> event list \<Rightarrow> event option" where
  "selected_event message i [] = None"
| "selected_event message i (e # es) =
     (if contains (str (i + 1)) message then Some e else selected_event message (Suc i) es)"

definition cancel_booking :: "env \<Rightarrow> agent_state \<Rightarrow> outcome" where
  "cancel_booking \<E> state =
     (case upcoming_events \<E> of
        HTTPStatusError e \<Rightarrow>
          ([GetUpcomingEvents],
           Inr (append_turn state (Error (''Error fetching upcoming events: '' @ e) assistant)))
      | RequestFailed e \<Rightarrow> ([GetUpcomingEvents], Inl e)
      | Ok evs \<Rightarrow>
          (let state1 = state\<lparr>events := evs\<rparr> in
           case last_content (messages state1) of
             Inl e \<Rightarrow> ([GetUpcomingEvents], Inl e)
           | Inr c \<Rightarrow>
               (let message = lower (strip c) in
                if evs = [] then
                  ([GetUpcomingEvents],
                   Inr (append_turn state1 (Content ''No upcoming bookings found.'' assistant)))
                else
                  (case event_lines \<E> 0 evs of
                     Inl e \<Rightarrow> ([GetUpcomingEvents], Inl e)
                   | Inr ls \<Rightarrow>
                       (let event_list = join [CHR 0x0A] ls in
                        if \<not> contains ''select'' message
                           \<and> \<not> list_ex (\<lambda>i. contains (str (i + 1)) message) [0 ..< length evs]
                        then
                          ([GetUpcomingEvents],
                           Inr (append_turn state1
                                  (Content (''Please select an event to cancel:'' @ [CHR 0x0A]
                                              @ event_list) assistant)))
                        else
                          (case selected_event message 0 evs of
                             None \<Rightarrow>
                               ([GetUpcomingEvents],
                                Inr (append_turn state1
                                       (Content (''Please specify the event number to cancel:''
                                                   @ [CHR 0x0A] @ event_list) assistant)))
                           | Some ev \<Rightarrow>
                               (case ev_start ev of
                                  None \<Rightarrow> ([GetUpcomingEvents], Inl (KeyError ''dateTime''))
                                | Some t \<Rightarrow>
                                    (case cancel \<E> (ev_id ev) of
                                       Ok u \<Rightarrow>
                                         (case ev_summary ev of
                                            None \<Rightarrow>
                                              ([GetUpcomingEvents, DeleteCancel (ev_id ev)],
                                               Inl (KeyError ''summary''))
                                          | Some summary \<Rightarrow>
                                              ([GetUpcomingEvents, DeleteCancel (ev_id ev)],
                                               Inr (append_turn state1
                                                      (Content (''Cancelled booking: '' @ summary
                                                                  @ '' at '' @ strftime \<E> t)
                                                         assistant))))
                                     | HTTPStatusError e \<Rightarrow>
                                         ([GetUpcomingEvents, DeleteCancel (ev_id ev)],
                                          Inr (append_turn state1
                                                 (Error (''Error cancelling booking: '' @ e)
                                                    assistant)))
                                     | RequestFailed e \<Rightarrow>
                                         ([GetUpcomingEvents, DeleteCancel (ev_id ev)],
                                          Inl e)))))))))"

subsection \<open>The compiled graph and one turn of \<open>main\<close>\<close>

text \<open>
  \<open>identify_intent\<close> is the entry point; \<open>route\<close> picks the next node;
  \<open>check_availability\<close> is followed by \<open>suggest_slots\<close>; the other three end the run.
\<close>

definition and_then :: "outcome \<Rightarrow> (agent_state \<Rightarrow> outcome) \<Rightarrow> outcome" where
  "and_then r node =
     (case r of
        (calls, Inl e) \<Rightarrow> (calls, Inl e)
      | (calls, Inr state) \<Rightarrow> (case node state of (calls', r') \<Rightarrow> (calls @ calls', r')))"

definition dispatch :: "env \<Rightarrow> agent_state \<Rightarrow> outcome" where
  "dispatch \<E> state =
     (if route state = ''check_availability'' then
        and_then (check_availability_node \<E> state) (suggest_slots \<E>)
      else if route state = ''confirm_booking'' then confirm_booking \<E> state
      else if route state = ''cancel'' then cancel_booking \<E> state
      else suggest_slots \<E> state)"

definition graph :: "env \<Rightarrow> agent_state \<Rightarrow> outcome" where
  "graph \<E> state = and_then (identify_intent \<E> state) (dispatch \<E>)"

definition initial_state :: "turn list \<Rightarrow> agent_state" where
  \<comment> \<open>lines 420-427\<close>
  "initial_state msgs =
     \<lparr>messages = msgs, intent = [], suggested_slots = [], confirmed_slot = None,
      time_zone = ''Asia/Kolkata'', events = []\<rparr>"

definition set_role :: "turn \<Rightarrow> role \<Rightarrow> turn" where
  "set_role t r = (case t of Content c r' \<Rightarrow> Content c r | Error e r' \<Rightarrow> Error e r)"

definition something_went_wrong :: "py_exception \<Rightarrow> turn" where
  "something_went_wrong e =
     Content (''Sorry, something went wrong: '' @ str_exception e @ ''. Please try again.'')
       assistant"

text \<open>
  Lines 413-439 on the session's message list: the list after the turn, and the calls
  made. The state's messages are the session's, rebuilt from their \<open>content\<close> and
  \<open>role\<close>; when that does not raise, every one has a \<open>content\<close> and the rebuilt list
  is the session's own.
\<close>

definition main :: "env \<Rightarrow> turn list \<Rightarrow> string \<Rightarrow> call list \<times> turn list" where
  "main \<E> session prompt =
     (let session1 = session @ [Content prompt user] in
      case contents session1 of
        Inl e \<Rightarrow> ([], session1 @ [something_went_wrong e])
      | Inr cs \<Rightarrow>
          (case graph \<E> (initial_state session1) of
             (calls, Inl e) \<Rightarrow> (calls, session1 @ [something_went_wrong e])
           | (calls, Inr result) \<Rightarrow>
               (if messages result = [] then
                  (calls, session1 @ [something_went_wrong (IndexError ''list index out of range'')])
                else
                  (let new_message = set_role (last (messages result)) assistant in
                   case content new_message of
                     Inr c \<Rightarrow> (calls, session1 @ [new_message])
                   | Inl e \<Rightarrow> (calls, session1 @ [new_message, something_went_wrong e])))))"

section \<open>Example environments and states\<close>

text \<open>
  A concrete environment for the examples below: the clock reads 2025-06-25 10:00 UTC
  (a Wednesday, 15:30 in Asia/Kolkata), the calendar is empty, and the model's replies and
  the answer of \<open>POST /book\<close> are given.
\<close>

definition example_env :: "(prompt \<Rightarrow> string + string) \<Rightarrow> string response \<Rightarrow> env" where
  "example_env llm_reply book_reply =
     \<lparr>now = \<lparr>ordinal = 739427, micros = 36000000000\<rparr>,
      llm = llm_reply,
      parse_time = (\<lambda>message. None),
      strftime = (\<lambda>t. ''June 26, 2025, 02:00 PM''),
      availability = (\<lambda>a b. Ok []),
      book = (\<lambda>a b. book_reply),
      upcoming_events = Ok [],
      cancel = (\<lambda>event_id. Ok ())\<rparr>"

definition example_state :: "string \<Rightarrow> instant list \<Rightarrow> agent_state" where
  \<comment> \<open>the state of a turn with one user message and the given candidate slots\<close>
  "example_state message slots = (initial_state [Content message user])\<lparr>suggested_slots := slots\<rparr>"

text \<open>Three slots of 2025-06-26, at 10:00, 14:00 and 16:00 in Asia/Kolkata.\<close>

definition slot_10 :: instant where "slot_10 = 1750912200000000"
definition slot_14 :: instant where "slot_14 = 1750926600000000"
definition slot_16 :: instant where "slot_16 = 1750933800000000"



section \<open>The slot generator meets its contract\<close>

lemma stride_nil: "\<not> range_start < range_end \<Longrightarrow> stride_instants range_start range_end = []"
  unfolding stride_instants_def minutes30_def by simp

lemma stride_cons:
  assumes "range_start < range_end"
  shows "stride_instants range_start range_end
           = range_start # stride_instants (range_start + minutes30) range_end"
proof -
  define n where "n = nat ((range_end - (range_start + minutes30) + minutes30 - 1) div minutes30)"
  have m: "0 < minutes30" by (simp add: minutes30_def)
  have "(range_end - range_start + minutes30 - 1) div minutes30
          = (range_end - (range_start + minutes30) + minutes30 - 1) div minutes30 + 1"
  proof -
    have "(x + minutes30) div minutes30 = x div minutes30 + 1" for x
      by (simp add: minutes30_def)
    from this [of "range_end - (range_start + minutes30) + minutes30 - 1"]
    show ?thesis by (simp add: algebra_simps)
  qed
  moreover have "0 \<le> (range_end - (range_start + minutes30) + minutes30 - 1) div minutes30"
    using m assms by (simp add: pos_imp_zdiv_nonneg_iff)
  ultimately have "nat ((range_end - range_start + minutes30 - 1) div minutes30) = Suc n"
    unfolding n_def by simp
  then have "stride_instants range_start range_end
               = map (\<lambda>k. range_start + int k * minutes30) [0 ..< Suc n]"
    by (simp add: stride_instants_def)
  also have "[0 ..< Suc n] = 0 # map Suc [0 ..< n]"
    by (simp add: upt_conv_Cons map_Suc_upt del: upt_Suc)
  also have "map (\<lambda>k. range_start + int k * minutes30) (0 # map Suc [0 ..< n])
               = range_start # map (\<lambda>k. (range_start + minutes30) + int k * minutes30) [0 ..< n]"
    by (simp add: comp_def algebra_simps)
  also have "map (\<lambda>k. (range_start + minutes30) + int k * minutes30) [0 ..< n]
               = stride_instants (range_start + minutes30) range_end"
    by (simp add: stride_instants_def n_def)
  finally show ?thesis .
qed

lemma any_overlap_False:
  "any_overlap busy se ct = Inr False \<longleftrightarrow> (\<forall>ev \<in> set busy. overlaps ev se ct = Inr False)"
  by (induction busy) (auto split: sum.splits bool.splits)

lemma any_overlap_total:
  "\<forall>ev \<in> set busy. well_formed ev \<Longrightarrow> \<exists>b. any_overlap busy se ct = Inr b"
  by (induction busy) (auto simp: well_formed_def overlaps_def split: sum.splits bool.splits option.splits)

lemma slot_loop_unfold:
  "slot_loop c e busy acc =
     (if c < e then
        (if business_hours c then
           (case any_overlap busy (c + minutes30) c of
              Inl x \<Rightarrow> Inl x
            | Inr b \<Rightarrow> slot_loop (c + minutes30) e busy (if b then acc else acc @ [c]))
         else slot_loop (c + minutes30) e busy acc)
      else Inr acc)"
  by (subst slot_loop.simps) (simp add: Let_def business_hours_def split: sum.splits bool.splits)

lemma slot_loop_result:
  "slot_loop c e busy acc = Inr r \<Longrightarrow>
     r = acc @ filter (\<lambda>t. business_hours t \<and> free_slot busy t) (stride_instants c e)"
proof (induction c e busy acc rule: slot_loop.induct)
  case (1 c e busy acc)
  have bh: "business_hours c \<longleftrightarrow> 9 \<le> local_hour c \<and> local_hour c < 18"
    by (simp add: business_hours_def)
  note run = "1.prems" [unfolded slot_loop_unfold [of c e busy acc]]
  show ?case
  proof (cases "c < e")
    case False
    with run show ?thesis by (simp add: stride_nil)
  next
    case lt: True
    show ?thesis
    proof (cases "business_hours c")
      case False
      then have nh: "\<not> (9 \<le> local_hour c \<and> local_hour c < 18)" using bh by simp
      from run lt False have "slot_loop (c + minutes30) e busy acc = Inr r" by simp
      from "1.IH"(3) [OF lt refl nh this] False lt show ?thesis
        by (simp add: stride_cons)
    next
      case True
      then have h: "9 \<le> local_hour c \<and> local_hour c < 18" using bh by simp
      from run lt True obtain b where
        b: "any_overlap busy (c + minutes30) c = Inr b" and
        rec: "slot_loop (c + minutes30) e busy (if b then acc else acc @ [c]) = Inr r"
        by (auto split: sum.splits)
      show ?thesis
      proof (cases b)
        case True
        with b have "\<not> free_slot busy c"
          using any_overlap_False [of busy "c + minutes30" c] by (simp add: free_slot_def)
        moreover have "r = acc @ filter (\<lambda>t. business_hours t \<and> free_slot busy t)
                              (stride_instants (c + minutes30) e)"
          by (rule "1.IH"(1) [OF lt refl h]) (use b rec True in simp_all)
        ultimately show ?thesis using lt by (simp add: stride_cons)
      next
        case False
        with b have "free_slot busy c"
          using any_overlap_False [of busy "c + minutes30" c] by (simp add: free_slot_def)
        moreover have "r = (acc @ [c]) @ filter (\<lambda>t. business_hours t \<and> free_slot busy t)
                              (stride_instants (c + minutes30) e)"
          by (rule "1.IH"(2) [OF lt refl h]) (use b rec False in simp_all)
        ultimately show ?thesis using lt \<open>business_hours c\<close> by (simp add: stride_cons)
      qed
    qed
  qed
qed

lemma slot_loop_total:
  "\<forall>ev \<in> set busy. well_formed ev \<Longrightarrow> \<exists>r. slot_loop c e busy acc = Inr r"
proof (induction c e busy acc rule: slot_loop.induct)
  case (1 c e busy acc)
  obtain b where b: "any_overlap busy (c + minutes30) c = Inr b"
    using any_overlap_total [OF "1.prems"] by blast
  have bh: "business_hours c \<longleftrightarrow> 9 \<le> local_hour c \<and> local_hour c < 18"
    by (simp add: business_hours_def)
  show ?case
  proof (cases "c < e")
    case False
    then show ?thesis by (subst slot_loop_unfold) simp
  next
    case lt: True
    show ?thesis
    proof (cases "business_hours c")
      case False
      then have "\<not> (9 \<le> local_hour c \<and> local_hour c < 18)" using bh by simp
      from "1.IH"(3) [OF lt refl this "1.prems"] False lt show ?thesis
        by (subst slot_loop_unfold) simp
    next
      case True
      then have h: "9 \<le> local_hour c \<and> local_hour c < 18" using bh by simp
      show ?thesis
      proof (cases b)
        case True
        have "\<exists>r. slot_loop (c + minutes30) e busy acc = Inr r"
          by (rule "1.IH"(1) [OF lt refl h _ _ "1.prems"]) (use b True in simp_all)
        with True b lt \<open>business_hours c\<close> show ?thesis
          by (subst slot_loop_unfold) simp
      next
        case False
        have "\<exists>r. slot_loop (c + minutes30) e busy (acc @ [c]) = Inr r"
          by (rule "1.IH"(2) [OF lt refl h _ _ "1.prems"]) (use b False in simp_all)
        with False b lt \<open>business_hours c\<close> show ?thesis
          by (subst slot_loop_unfold) simp
      qed
    qed
  qed
qed

lemma stride_sorted: "sorted_wrt (<) (stride_instants s e)"
  unfolding stride_instants_def
  by (simp add: sorted_wrt_map sorted_wrt_iff_nth_less minutes30_def)

lemma free_slot_no_event:
  "free_slot busy t \<Longrightarrow> ev \<in> set busy \<Longrightarrow> \<not> event_overlaps ev t"
  by (auto simp: free_slot_def event_overlaps_def overlaps_def
           split: option.splits if_splits dest!: bspec)

text \<open>
  Claim C1. Whenever \<open>GET /availability\<close> returns a slot list, the request had a
  parsed range and a calendar listing, the list is exactly the ascending 30-minute-stride
  instants from \<open>range_start\<close> below \<open>range_end\<close> that lie in business hours and
  are free of every busy event, in strictly ascending order; every returned slot has its
  Asia/Kolkata hour in [9, 18) and the test
  \<open>event.start < slot_end AND event.end > slot_start\<close> is false for it on every busy
  event. And the generator does return a list for every range with
  \<open>range_start < range_end\<close> and every busy list whose events carry both instants.
\<close>

theorem slot_generator_contract:
  "(get_availability start end calendar = Inr slots \<longrightarrow>
      (\<exists>start_time end_time busy.
          start = Some start_time \<and> end = Some end_time \<and> calendar = Inr busy \<and>
          slots = filter (\<lambda>t. business_hours t \<and> free_slot busy t)
                    (stride_instants start_time end_time) \<and>
          sorted_wrt (<) slots \<and>
          (\<forall>t \<in> set slots.
              9 \<le> local_hour t \<and> local_hour t < 18 \<and>
              (\<forall>ev \<in> set busy.
                  overlaps ev (t + minutes30) t = Inr False \<and> \<not> event_overlaps ev t)))) \<and>
   (start_time < end_time \<and> (\<forall>ev \<in> set busy. well_formed ev) \<longrightarrow>
      (\<exists>slots. get_availability (Some start_time) (Some end_time) (Inr busy) = Inr slots))"
proof (intro conjI impI)
  assume ok: "get_availability start end calendar = Inr slots"
  then obtain s e busy where
    args: "start = Some s" "end = Some e" "calendar = Inr busy" and
    run: "slot_loop s e busy [] = Inr slots"
    by (auto simp: get_availability_def split: option.splits if_splits sum.splits)
  have eq: "slots = filter (\<lambda>t. business_hours t \<and> free_slot busy t) (stride_instants s e)"
    using slot_loop_result [OF run] by simp
  have "sorted_wrt (<) slots"
    unfolding eq by (rule sorted_wrt_filter) (rule stride_sorted)
  moreover have "\<forall>t \<in> set slots.
              9 \<le> local_hour t \<and> local_hour t < 18 \<and>
              (\<forall>ev \<in> set busy.
                  overlaps ev (t + minutes30) t = Inr False \<and> \<not> event_overlaps ev t)"
    unfolding eq using free_slot_no_event [of busy]
    by (auto simp: business_hours_def free_slot_def)
  ultimately show "\<exists>start_time end_time busy.
          start = Some start_time \<and> end = Some end_time \<and> calendar = Inr busy \<and>
          slots = filter (\<lambda>t. business_hours t \<and> free_slot busy t)
                    (stride_instants start_time end_time) \<and>
          sorted_wrt (<) slots \<and>
          (\<forall>t \<in> set slots.
              9 \<le> local_hour t \<and> local_hour t < 18 \<and>
              (\<forall>ev \<in> set busy.
                  overlaps ev (t + minutes30) t = Inr False \<and> \<not> event_overlaps ev t))"
    using args eq by blast
next
  assume "start_time < end_time \<and> (\<forall>ev \<in> set busy. well_formed ev)"
  then show "\<exists>slots. get_availability (Some start_time) (Some end_time) (Inr busy) = Inr slots"
    using slot_loop_total [of busy start_time end_time "[]"]
    by (simp add: get_availability_def)
qed

theorem slot_generator_contract_witness:
  "get_availability (Some 1750908600000000) (Some 1750915800000000)
     (Inr [\<lparr>bs_start = Some 1750910400000000, bs_end = Some 1750912200000000\<rparr>])
   = Inr [1750908600000000, 1750912200000000, 1750914000000000] \<and>
   [1750908600000000, 1750912200000000, 1750914000000000]
     = filter (\<lambda>t. business_hours t \<and>
                 free_slot [\<lparr>bs_start = Some 1750910400000000, bs_end = Some 1750912200000000\<rparr>] t)
         (stride_instants 1750908600000000 1750915800000000) \<and>
   list_all
     (\<lambda>t. 9 \<le> local_hour t \<and> local_hour t < 18 \<and>
       \<not> event_overlaps \<lparr>bs_start = Some 1750910400000000, bs_end = Some 1750912200000000\<rparr> t)
     [1750908600000000, 1750912200000000, 1750914000000000]"
proof -
  have run: "get_availability (Some 1750908600000000) (Some 1750915800000000)
     (Inr [\<lparr>bs_start = Some 1750910400000000, bs_end = Some 1750912200000000\<rparr>])
   = Inr [1750908600000000, 1750912200000000, 1750914000000000]"
    by code_simp
  note c = slot_generator_contract
         [of "Some 1750908600000000" "Some 1750915800000000"
             "Inr [\<lparr>bs_start = Some 1750910400000000, bs_end = Some 1750912200000000\<rparr>]"
             "[1750908600000000, 1750912200000000, 1750914000000000]"
             1750908600000000 1750915800000000
             "[\<lparr>bs_start = Some 1750910400000000, bs_end = Some 1750912200000000\<rparr>]",
          THEN conjunct1, THEN mp, OF run]
  then obtain st en bz where
    a: "Some (1750908600000000::int) = Some st" "Some (1750915800000000::int) = Some en"
       "(Inr [\<lparr>bs_start = Some 1750910400000000, bs_end = Some 1750912200000000\<rparr>]
          :: http_exception + busy_slot list) = Inr bz" and
    b: "[1750908600000000, 1750912200000000, 1750914000000000]
          = filter (\<lambda>t. business_hours t \<and> free_slot bz t) (stride_instants st en)" and
    d: "\<forall>t \<in> set [1750908600000000, 1750912200000000, 1750914000000000].
          9 \<le> local_hour t \<and> local_hour t < 18 \<and>
          (\<forall>ev \<in> set bz. overlaps ev (t + minutes30) t = Inr False \<and> \<not> event_overlaps ev t)"
    by blast
  from a have e: "st = 1750908600000000" "en = 1750915800000000"
    "bz = [\<lparr>bs_start = Some 1750910400000000, bs_end = Some 1750912200000000\<rparr>]"
    by simp_all
  from d have "list_all
     (\<lambda>t. 9 \<le> local_hour t \<and> local_hour t < 18 \<and>
       \<not> event_overlaps \<lparr>bs_start = Some 1750910400000000, bs_end = Some 1750912200000000\<rparr> t)
     [1750908600000000, 1750912200000000, 1750914000000000]"
    unfolding e list_all_iff by (intro ballI) (drule (1) bspec, simp)
  with run b [unfolded e] show ?thesis by blast
qed

section \<open>The chat agent's handlers\<close>

subsection \<open>Facts about the examples and the graph\<close>

lemma example_last_content [simp]:
  "last_content (messages (example_state message slots)) = Inr message"
  by (simp add: example_state_def initial_state_def last_content_def content_def)

lemma example_history [simp]:
  "history (messages (example_state message slots)) = Inr []"
  by (simp add: example_state_def initial_state_def history_def)

lemma and_then_Inr:
  "and_then (calls, Inr state) node = (calls @ fst (node state), snd (node state))"
  by (simp add: and_then_def split: prod.splits)

lemma and_then_Inl: "and_then (calls, Inl e) node = (calls, Inl e)"
  by (simp add: and_then_def)

lemma graph_first_call:
  assumes "last_content (messages state) = Inr message"
    and "history (messages state) = Inr hist"
  shows "\<exists>calls r. graph \<E> state = (LLM (intention_prompt message hist) # calls, r)"
  using assms
  by (cases "llm \<E> (intention_prompt message hist)")
     (simp_all add: graph_def identify_intent_def and_then_Inr)

subsection \<open>Empty candidate lists\<close>

text \<open>
  Claim C4. When the last message carries a text, whatever it is: \<open>confirm_booking\<close>
  on an empty slot list appends the reply "No available slots to confirm. Please check
  availability first." and makes no call at all (no model call, no \<open>POST /book\<close>);
  \<open>cancel_booking\<close>, when the backend lists zero upcoming events, appends exactly the
  turn "No upcoming bookings found." and its only call is the listing itself (no
  \<open>DELETE\<close>, no further prompt).
\<close>

theorem empty_candidates_no_side_effect:
  "(last_content (messages state) = Inr c \<and> suggested_slots state = [] \<longrightarrow>
      confirm_booking \<E> state =
        ([], Inr (append_turn state
                    (Content ''No available slots to confirm. Please check availability first.''
                       assistant)))) \<and>
   (last_content (messages state) = Inr c \<and> upcoming_events \<E> = Ok [] \<longrightarrow>
      cancel_booking \<E> state =
        ([GetUpcomingEvents],
         Inr (append_turn (state\<lparr>events := []\<rparr>)
                (Content ''No upcoming bookings found.'' assistant))))"
  by (auto simp: confirm_booking_def select_slot_def cancel_booking_def Let_def
           split: option.splits)

theorem empty_candidates_no_side_effect_witness:
  "confirm_booking (example_env (\<lambda>p. Inr ''ok'') (Ok [])) (example_state ''book slot 1'' [])
     = ([], Inr (append_turn (example_state ''book slot 1'' [])
                   (Content ''No available slots to confirm. Please check availability first.''
                      assistant))) \<and>
   cancel_booking (example_env (\<lambda>p. Inr ''ok'') (Ok [])) (example_state ''cancel'' [])
     = ([GetUpcomingEvents],
        Inr (append_turn ((example_state ''cancel'' [])\<lparr>events := []\<rparr>)
               (Content ''No upcoming bookings found.'' assistant))) \<and>
   main (example_env (\<lambda>p. Inr ''cancel'') (Ok [])) [] ''cancel''
     = ([LLM (intention_prompt ''cancel'' []), GetUpcomingEvents],
        [Content ''cancel'' user, Content ''No upcoming bookings found.'' assistant])"
proof -
  have s: "suggested_slots (example_state ''book slot 1'' []) = []"
    by (simp add: example_state_def)
  have u: "upcoming_events (example_env (\<lambda>p. Inr ''ok'') (Ok [])) = Ok []"
    by (simp add: example_env_def)
  have m: "main (example_env (\<lambda>p. Inr ''cancel'') (Ok [])) [] ''cancel''
     = ([LLM (intention_prompt ''cancel'' []), GetUpcomingEvents],
        [Content ''cancel'' user, Content ''No upcoming bookings found.'' assistant])"
    by code_simp
  from empty_candidates_no_side_effect
         [of "example_state ''book slot 1'' []" "''book slot 1''"
             "example_env (\<lambda>p. Inr ''ok'') (Ok [])"]
       empty_candidates_no_side_effect
         [of "example_state ''cancel'' []" "''cancel''"
             "example_env (\<lambda>p. Inr ''ok'') (Ok [])"]
       s u m
  show ?thesis by simp
qed

subsection \<open>The greeting check\<close>

text \<open>
  Claim C10. The greeting check of \<open>suggest_slots\<close> is substring containment on the
  stripped, lowercased message: whenever "hi", "hello" or "hey" occurs anywhere in it
  (also inside another word, as in "this afternoon"), the handler appends "Hi!" and
  returns without any call, whatever the candidate slots are.
\<close>

theorem greeting_substring_short_circuit:
  assumes "last_content (messages state) = Inr c"
    and "history (messages state) = Inr hist"
    and "contains ''hi'' (lower (strip c)) \<or> contains ''hello'' (lower (strip c))
           \<or> contains ''hey'' (lower (strip c))"
  shows "suggest_slots \<E> state = ([], Inr (append_turn state (Content ''Hi!'' assistant)))"
  using assms by (auto simp: suggest_slots_def greetings_def Let_def)

theorem greeting_substring_short_circuit_witness:
  "contains ''hi'' (lower (strip ''This afternoon'')) \<and>
   suggest_slots (example_env (\<lambda>p. Inr ''unclear'') (Ok [])) (example_state ''This afternoon'' [slot_14])
     = ([], Inr (append_turn (example_state ''This afternoon'' [slot_14]) (Content ''Hi!'' assistant)))"
proof -
  have c: "contains ''hi'' (lower (strip ''This afternoon''))" by code_simp
  from greeting_substring_short_circuit
         [OF example_last_content example_history, of "''This afternoon''"] c
  show ?thesis by blast
qed

text \<open>
  Claim C5, as stated, fails: a turn with the message "hi" first calls the model for
  intent classification; the greeting comes afterwards, and only when the classified
  intent routes to the suggestion handler. With the intent "cancel" the same message
  gets no greeting at all.
\<close>

theorem greeting_after_classification_counterexample:
  "main (example_env (\<lambda>p. Inr ''unclear'') (Ok [])) [] ''hi''
     = ([LLM (intention_prompt ''hi'' [])], [Content ''hi'' user, Content ''Hi!'' assistant]) \<and>
   main (example_env (\<lambda>p. Inr ''cancel'') (Ok [])) [] ''hi''
     = ([LLM (intention_prompt ''hi'' []), GetUpcomingEvents],
        [Content ''hi'' user, Content ''No upcoming bookings found.'' assistant])"
  by code_simp

text \<open>
  Claim C5, amended. For every turn whose messages all carry a text, the first call of
  the graph is the model call of intent classification. The greeting is the suggestion
  handler's: when the model answers and the stripped answer is none of
  \<open>book_appointment\<close>, \<open>check_availability\<close>, \<open>confirm_booking\<close>, \<open>cancel\<close>, a
  message containing "hi", "hello" or "hey" is answered "Hi!", and otherwise a message
  containing "good morning" while the Asia/Kolkata hour is before 12 is answered
  "Good morning!"; in both cases the classification call is the only call of the turn.
\<close>

theorem greeting_after_classification:
  assumes "last_content (messages state) = Inr message"
    and "history (messages state) = Inr hist"
  shows "(\<exists>calls r. graph \<E> state = (LLM (intention_prompt message hist) # calls, r)) \<and>
         (llm \<E> (intention_prompt message hist) = Inr response \<and>
          strip response \<notin> set [''book_appointment'', ''check_availability'',
                                  ''confirm_booking'', ''cancel''] \<and>
          list_ex (\<lambda>greet. contains greet (lower (strip message))) greetings \<longrightarrow>
            graph \<E> state
              = ([LLM (intention_prompt message hist)],
                 Inr (append_turn (state\<lparr>intent := strip response\<rparr>) (Content ''Hi!'' assistant)))) \<and>
         (llm \<E> (intention_prompt message hist) = Inr response \<and>
          strip response \<notin> set [''book_appointment'', ''check_availability'',
                                  ''confirm_booking'', ''cancel''] \<and>
          \<not> list_ex (\<lambda>greet. contains greet (lower (strip message))) greetings \<and>
          contains ''good morning'' (lower (strip message)) \<and> local_hour_of (now \<E>) < 12 \<longrightarrow>
            graph \<E> state
              = ([LLM (intention_prompt message hist)],
                 Inr (append_turn (state\<lparr>intent := strip response\<rparr>)
                        (Content ''Good morning!'' assistant))))"
proof (intro conjI impI)
  show "\<exists>calls r. graph \<E> state = (LLM (intention_prompt message hist) # calls, r)"
    by (rule graph_first_call [OF assms])
next
  assume h: "llm \<E> (intention_prompt message hist) = Inr response \<and>
          strip response \<notin> set [''book_appointment'', ''check_availability'',
                                  ''confirm_booking'', ''cancel''] \<and>
          list_ex (\<lambda>greet. contains greet (lower (strip message))) greetings"
  then have r: "route (state\<lparr>intent := strip response\<rparr>) = ''suggest_slots''"
    by (simp add: route_def)
  have "suggest_slots \<E> (state\<lparr>intent := strip response\<rparr>)
          = ([], Inr (append_turn (state\<lparr>intent := strip response\<rparr>) (Content ''Hi!'' assistant)))"
    using assms h by (simp add: suggest_slots_def Let_def)
  with assms h r show "graph \<E> state
              = ([LLM (intention_prompt message hist)],
                 Inr (append_turn (state\<lparr>intent := strip response\<rparr>) (Content ''Hi!'' assistant)))"
    by (simp add: graph_def identify_intent_def and_then_Inr dispatch_def)
next
  assume h: "llm \<E> (intention_prompt message hist) = Inr response \<and>
          strip response \<notin> set [''book_appointment'', ''check_availability'',
                                  ''confirm_booking'', ''cancel''] \<and>
          \<not> list_ex (\<lambda>greet. contains greet (lower (strip message))) greetings \<and>
          contains ''good morning'' (lower (strip message)) \<and> local_hour_of (now \<E>) < 12"
  then have r: "route (state\<lparr>intent := strip response\<rparr>) = ''suggest_slots''"
    by (simp add: route_def)
  have "suggest_slots \<E> (state\<lparr>intent := strip response\<rparr>)
          = ([], Inr (append_turn (state\<lparr>intent := strip response\<rparr>)
                        (Content ''Good morning!'' assistant)))"
    using assms h by (simp add: suggest_slots_def Let_def)
  with assms h r show "graph \<E> state
              = ([LLM (intention_prompt message hist)],
                 Inr (append_turn (state\<lparr>intent := strip response\<rparr>)
                        (Content ''Good morning!'' assistant)))"
    by (simp add: graph_def identify_intent_def and_then_Inr dispatch_def)
qed

theorem greeting_after_classification_witness:
  "graph (example_env (\<lambda>p. Inr ''unclear'') (Ok [])) (example_state ''Hello'' [slot_14])
     = ([LLM (intention_prompt ''Hello'' [])],
        Inr (append_turn ((example_state ''Hello'' [slot_14])\<lparr>intent := strip ''unclear''\<rparr>)
               (Content ''Hi!'' assistant))) \<and>
   graph ((example_env (\<lambda>p. Inr ''unclear'') (Ok []))\<lparr>now := \<lparr>ordinal = 739427, micros = 3600000000\<rparr>\<rparr>)
       (example_state ''Good morning'' [slot_14])
     = ([LLM (intention_prompt ''Good morning'' [])],
        Inr (append_turn ((example_state ''Good morning'' [slot_14])\<lparr>intent := strip ''unclear''\<rparr>)
               (Content ''Good morning!'' assistant)))"
proof -
  let ?E = "example_env (\<lambda>p. Inr ''unclear'') (Ok [])"
  let ?E' = "?E\<lparr>now := \<lparr>ordinal = 739427, micros = 3600000000\<rparr>\<rparr>"
  have a: "llm ?E (intention_prompt ''Hello'' []) = Inr ''unclear'' \<and>
          strip ''unclear'' \<notin> set [''book_appointment'', ''check_availability'',
                                  ''confirm_booking'', ''cancel''] \<and>
          list_ex (\<lambda>greet. contains greet (lower (strip ''Hello''))) greetings"
    by code_simp
  have b: "llm ?E' (intention_prompt ''Good morning'' []) = Inr ''unclear'' \<and>
          strip ''unclear'' \<notin> set [''book_appointment'', ''check_availability'',
                                  ''confirm_booking'', ''cancel''] \<and>
          \<not> list_ex (\<lambda>greet. contains greet (lower (strip ''Good morning''))) greetings \<and>
          contains ''good morning'' (lower (strip ''Good morning'')) \<and> local_hour_of (now ?E') < 12"
    by code_simp
  from greeting_after_classification
         [where state = "example_state ''Hello'' [slot_14]" and message = "''Hello''" and hist = "[]"
            and \<E> = ?E and response = "''unclear''", OF example_last_content example_history] a
  have 1: "graph ?E (example_state ''Hello'' [slot_14])
     = ([LLM (intention_prompt ''Hello'' [])],
        Inr (append_turn ((example_state ''Hello'' [slot_14])\<lparr>intent := strip ''unclear''\<rparr>)
               (Content ''Hi!'' assistant)))"
    by blast
  from greeting_after_classification
         [where state = "example_state ''Good morning'' [slot_14]" and message = "''Good morning''"
            and hist = "[]" and \<E> = ?E' and response = "''unclear''",
          OF example_last_content example_history] b
  have 2: "graph ?E' (example_state ''Good morning'' [slot_14])
     = ([LLM (intention_prompt ''Good morning'' [])],
        Inr (append_turn ((example_state ''Good morning'' [slot_14])\<lparr>intent := strip ''unclear''\<rparr>)
               (Content ''Good morning!'' assistant)))"
    by blast
  from 1 2 show ?thesis by blast
qed

subsection \<open>Intent classification\<close>

text \<open>
  Claim C7, as stated, fails: \<open>identify_intent\<close> stores the model's stripped answer as
  it is, so an answer outside the closed set leaves an intent outside the closed set.
\<close>

theorem intent_not_normalised_counterexample:
  "identify_intent (example_env (\<lambda>p. Inr ''  I think they want to book  '') (Ok []))
       (example_state ''hello there'' [])
     = ([LLM (intention_prompt ''hello there'' [])],
        Inr ((example_state ''hello there'' [])\<lparr>intent := ''I think they want to book''\<rparr>)) \<and>
   ''I think they want to book''
     \<notin> set [''book_appointment'', ''check_availability'', ''confirm_booking'', ''cancel'', ''unclear'']"
  by code_simp

text \<open>
  Claim C7, amended. When every message carries a text: if the model answers, the stored
  intent is its stripped answer, unchanged; if the model call fails, the stored intent
  is "unclear"; and \<open>route\<close> sends every intent other than \<open>book_appointment\<close>,
  \<open>check_availability\<close>, \<open>confirm_booking\<close> and \<open>cancel\<close> to the suggestion handler,
  exactly as it does for "unclear".
\<close>

theorem intent_stored_verbatim:
  assumes "last_content (messages state) = Inr message"
    and "history (messages state) = Inr hist"
  shows "(llm \<E> (intention_prompt message hist) = Inr response \<longrightarrow>
            identify_intent \<E> state
              = ([LLM (intention_prompt message hist)], Inr (state\<lparr>intent := strip response\<rparr>))) \<and>
         (llm \<E> (intention_prompt message hist) = Inl e \<longrightarrow>
            (\<exists>state'. identify_intent \<E> state = ([LLM (intention_prompt message hist)], Inr state')
                \<and> intent state' = ''unclear'')) \<and>
         (intent state \<notin> set [''book_appointment'', ''check_availability'', ''confirm_booking'', ''cancel'']
            \<longrightarrow> route state = ''suggest_slots'' \<and> route state = route (state\<lparr>intent := ''unclear''\<rparr>))"
  using assms by (auto simp: identify_intent_def route_def append_turn_def)

theorem intent_stored_verbatim_witness:
  "identify_intent (example_env (\<lambda>p. Inr '' cancel '') (Ok [])) (example_state ''drop it'' [])
     = ([LLM (intention_prompt ''drop it'' [])],
        Inr ((example_state ''drop it'' [])\<lparr>intent := strip '' cancel ''\<rparr>)) \<and>
   (\<exists>state'. identify_intent (example_env (\<lambda>p. Inl ''timeout'') (Ok [])) (example_state ''drop it'' [])
                 = ([LLM (intention_prompt ''drop it'' [])], Inr state')
              \<and> intent state' = ''unclear'') \<and>
   route ((example_state ''drop it'' [])\<lparr>intent := ''maybe''\<rparr>) = ''suggest_slots''"
proof -
  have a: "llm (example_env (\<lambda>p. Inr '' cancel '') (Ok [])) (intention_prompt ''drop it'' [])
             = Inr '' cancel ''"
    by (simp add: example_env_def)
  have b: "llm (example_env (\<lambda>p. Inl ''timeout'') (Ok [])) (intention_prompt ''drop it'' [])
             = Inl ''timeout''"
    by (simp add: example_env_def)
  have c: "intent ((example_state ''drop it'' [])\<lparr>intent := ''maybe''\<rparr>)
             \<notin> set [''book_appointment'', ''check_availability'', ''confirm_booking'', ''cancel'']"
    by simp
  note t = intent_stored_verbatim [OF example_last_content example_history]
  from t [where \<E> = "example_env (\<lambda>p. Inr '' cancel '') (Ok [])" and response = "'' cancel ''"] a
  have 1: "identify_intent (example_env (\<lambda>p. Inr '' cancel '') (Ok [])) (example_state ''drop it'' [])
     = ([LLM (intention_prompt ''drop it'' [])],
        Inr ((example_state ''drop it'' [])\<lparr>intent := strip '' cancel ''\<rparr>))"
    by blast
  from t [where \<E> = "example_env (\<lambda>p. Inl ''timeout'') (Ok [])" and e = "''timeout''"] b
  have 2: "\<exists>state'. identify_intent (example_env (\<lambda>p. Inl ''timeout'') (Ok [])) (example_state ''drop it'' [])
                 = ([LLM (intention_prompt ''drop it'' [])], Inr state')
              \<and> intent state' = ''unclear''"
    by blast
  from intent_stored_verbatim [where state = "(example_state ''drop it'' [])\<lparr>intent := ''maybe''\<rparr>"
         and message = "''drop it''" and hist = "[]"] c
  have 3: "route ((example_state ''drop it'' [])\<lparr>intent := ''maybe''\<rparr>) = ''suggest_slots''"
    by (simp add: example_state_def initial_state_def last_content_def content_def history_def)
  from 1 2 3 show ?thesis by blast
qed

subsection \<open>What \<open>main\<close> gives the booking handler\<close>

text \<open>
  \<open>main\<close> starts every turn with an empty candidate list and no node before
  \<open>confirm_booking\<close> fills it, so in a run of the program the booking handler makes no
  call and \<open>POST /book\<close> is never requested. The claims about selection and about a
  failing insert are therefore claims about the handler on the states it is written for.
\<close>

lemma and_then_no_book:
  assumes "PostBook a b \<notin> set (fst r)"
    and "\<And>state. snd r = Inr state \<Longrightarrow> PostBook a b \<notin> set (fst (node state))"
  shows "PostBook a b \<notin> set (fst (and_then r node))"
  using assms by (cases r) (auto simp: and_then_def split: sum.splits prod.splits)

lemma identify_intent_no_book: "PostBook a b \<notin> set (fst (identify_intent \<E> state))"
  by (auto simp: identify_intent_def split: sum.splits)

lemma identify_intent_keeps_slots:
  "snd (identify_intent \<E> state) = Inr state' \<Longrightarrow> suggested_slots state' = suggested_slots state"
  by (auto simp: identify_intent_def append_turn_def split: sum.splits)

lemma suggest_slots_no_book: "PostBook a b \<notin> set (fst (suggest_slots \<E> state))"
  by (auto simp: suggest_slots_def Let_def split: sum.splits)

lemma check_availability_no_book: "PostBook a b \<notin> set (fst (check_availability_node \<E> state))"
  by (auto simp: check_availability_node_def Let_def split: sum.splits prod.splits response.splits)

lemma cancel_booking_no_book: "PostBook a b \<notin> set (fst (cancel_booking \<E> state))"
  by (auto simp: cancel_booking_def Let_def split: sum.splits option.splits response.splits)

lemma confirm_booking_without_candidates:
  "suggested_slots state = [] \<Longrightarrow> fst (confirm_booking \<E> state) = []"
  by (auto simp: confirm_booking_def select_slot_def Let_def split: sum.splits option.splits)

lemma dispatch_no_book:
  assumes "suggested_slots state = []"
  shows "PostBook a b \<notin> set (fst (dispatch \<E> state))"
proof -
  have "PostBook a b \<notin> set (fst (and_then (check_availability_node \<E> state) (suggest_slots \<E>)))"
    by (rule and_then_no_book) (rule check_availability_no_book, rule suggest_slots_no_book)
  then show ?thesis
    using assms
    by (simp add: dispatch_def confirm_booking_without_candidates suggest_slots_no_book
          cancel_booking_no_book)
qed

lemma graph_no_book:
  assumes "suggested_slots state = []"
  shows "PostBook a b \<notin> set (fst (graph \<E> state))"
  unfolding graph_def
proof (rule and_then_no_book)
  show "PostBook a b \<notin> set (fst (identify_intent \<E> state))"
    by (rule identify_intent_no_book)
next
  fix state'
  assume "snd (identify_intent \<E> state) = Inr state'"
  from identify_intent_keeps_slots [OF this] assms have "suggested_slots state' = []" by simp
  then show "PostBook a b \<notin> set (fst (dispatch \<E> state'))"
    by (rule dispatch_no_book)
qed

lemma main_never_books: "PostBook a b \<notin> set (fst (main \<E> session prompt))"
proof -
  let ?g = "graph \<E> (initial_state (session @ [Content prompt user]))"
  have "suggested_slots (initial_state (session @ [Content prompt user])) = []"
    by (simp add: initial_state_def)
  from graph_no_book [OF this] have g: "PostBook a b \<notin> set (fst ?g)" .
  have "fst (main \<E> session prompt) = [] \<or> fst (main \<E> session prompt) = fst ?g"
    by (cases ?g) (auto simp: main_def Let_def split: sum.splits if_splits)
  with g show ?thesis by auto
qed

subsection \<open>A failing calendar insert\<close>




section \<open>The date parser\<close>

text \<open>
  Claim C6 at the message "Book June 31, 2025": for every clock reading,
  \<open>parse_user_date\<close> raises \<open>ValueError\<close>, the caller's range computation raises with
  it instead of taking the default range, and the turn (classified as
  \<open>book_appointment\<close>) ends in the catch-all reply of \<open>main\<close> without any availability
  request.
\<close>

theorem invalid_day_raises:
  "parse_user_date now' ''Book June 31, 2025'' = Inl (ValueError ''day is out of range for month'') \<and>
   requested_range now' (lower (strip ''Book June 31, 2025''))
     = Inl (ValueError ''day is out of range for month'') \<and>
   main (example_env (\<lambda>p. Inr ''book_appointment'') (Ok [])) [] ''Book June 31, 2025''
     = ([LLM (intention_prompt ''Book June 31, 2025'' [])],
        [Content ''Book June 31, 2025'' user,
         Content ''Sorry, something went wrong: day is out of range for month. Please try again.''
           assistant])"
proof -
  have d: "date_search (lower ''Book June 31, 2025'') = Some (''june'', 31, 2025)"
    by code_simp
  have l: "lower (lower (strip ''Book June 31, 2025'')) = lower ''Book June 31, 2025''"
    by code_simp
  have n: "month_map ''june'' = Inr 6" "new_datetime 2025 6 31 = Inl (ValueError ''day is out of range for month'')"
    by code_simp+
  have 1: "parse_user_date now' ''Book June 31, 2025'' = Inl (ValueError ''day is out of range for month'')"
    using d n by (simp add: parse_user_date_def explicit_range_def Let_def)
  have 2: "requested_range now' (lower (strip ''Book June 31, 2025''))
     = Inl (ValueError ''day is out of range for month'')"
    using d l n by (simp add: requested_range_def parse_user_date_def explicit_range_def Let_def)
  have 3: "main (example_env (\<lambda>p. Inr ''book_appointment'') (Ok [])) [] ''Book June 31, 2025''
     = ([LLM (intention_prompt ''Book June 31, 2025'' [])],
        [Content ''Book June 31, 2025'' user,
         Content ''Sorry, something went wrong: day is out of range for month. Please try again.''
           assistant])"
    by code_simp
  from 1 2 3 show ?thesis by blast
qed

text \<open>
  Claim C8, as stated, fails: with "afternoon" in the message the parser's result is
  12:00 to 18:00 on the explicit date, not its full 24 hours.
\<close>

theorem explicit_date_not_full_day_counterexample:
  "contains ''tomorrow'' (lower ''Tomorrow afternoon, June 30, 2025'') \<and>
   date_search (lower ''Tomorrow afternoon, June 30, 2025'') = Some (''june'', 30, 2025) \<and>
   parse_user_date \<lparr>ordinal = 739427, micros = 36000000000\<rparr> ''Tomorrow afternoon, June 30, 2025''
     = Inr (Some \<lparr>ordinal = 739432, micros = 43200000000\<rparr>,
            Some \<lparr>ordinal = 739432, micros = 64800000000\<rparr>) \<and>
   parse_user_date \<lparr>ordinal = 739427, micros = 36000000000\<rparr> ''Tomorrow afternoon, June 30, 2025''
     \<noteq> Inr (Some (midnight (ymd2ord 2025 6 30)), Some (midnight (ymd2ord 2025 6 30 + 1)))"
  by code_simp

lemma at_hour_twice: "at_hour (at_hour d h) h' = at_hour d h'"
  by (simp add: at_hour_def)

text \<open>
  Claim C8, amended. For every message in which the explicit date pattern matches a
  valid calendar date whose next day is representable, the range resolved by lines
  113-132 is that date from midnight to the next midnight, whatever rules 1-2 had
  resolved (so also when a weekday, "today" or "tomorrow" occurs). The parser's result
  is this full-day range when the message contains neither "afternoon" nor one of the
  any-slot keywords; with "afternoon" it is 12:00 to 18:00 on the explicit date, and
  otherwise with an any-slot keyword 09:00 to 18:00 on the explicit date.
\<close>

theorem explicit_date_overrides_keywords:
  assumes "date_search (lower msg) = Some (month, day, year)"
    and "month_map month = Inr m"
    and "new_datetime (int year) m (int day) = Inr start_date"
    and "add_days start_date 1 = Inr end_date"
  shows "start_date = midnight (ymd2ord (int year) m (int day)) \<and>
         end_date = midnight (ymd2ord (int year) m (int day) + 1) \<and>
         explicit_range (lower msg) resolved = Inr (Some start_date, Some end_date) \<and>
         parse_user_date now' msg =
           (if contains ''afternoon'' (lower msg) then
              Inr (Some (at_hour start_date 12), Some (at_hour start_date 18))
            else if any_slot_keyword (lower msg) then
              Inr (Some (at_hour start_date 9), Some (at_hour start_date 18))
            else Inr (Some start_date, Some end_date))"
proof -
  have s: "start_date = midnight (ymd2ord (int year) m (int day))"
    using assms(3) by (auto simp: new_datetime_def midnight_def split: if_splits)
  have e: "end_date = midnight (ymd2ord (int year) m (int day) + 1)"
    using assms(4) unfolding s by (auto simp: add_days_def midnight_def split: if_splits)
  have x: "explicit_range (lower msg) r = Inr (Some start_date, Some end_date)" for r
    using assms by (simp add: explicit_range_def)
  show ?thesis
    using s e x
    by (simp add: parse_user_date_def Let_def narrow_range_def at_hour_twice)
qed

theorem explicit_date_overrides_keywords_witness:
  "date_search (lower ''Friday or tomorrow: June 30, 2025'') = Some (''june'', 30, 2025) \<and>
   contains ''friday'' (lower ''Friday or tomorrow: June 30, 2025'') \<and>
   parse_user_date \<lparr>ordinal = 739427, micros = 36000000000\<rparr> ''Friday or tomorrow: June 30, 2025''
     = Inr (Some (midnight (ymd2ord 2025 6 30)), Some (midnight (ymd2ord 2025 6 30 + 1))) \<and>
   keyword_range 739427 (lower ''Friday or tomorrow: June 30, 2025'')
     = (Some (midnight 739428), Some (midnight 739429)) \<and>
   ymd2ord 2025 6 30 = 739432"
proof -
  have d: "date_search (lower ''Friday or tomorrow: June 30, 2025'') = Some (''june'', 30, 2025)"
    by code_simp
  have m: "month_map ''june'' = Inr 6" by code_simp
  have n: "new_datetime (int 2025) 6 (int 30) = Inr (midnight (ymd2ord 2025 6 30))"
    by code_simp
  have a: "add_days (midnight (ymd2ord 2025 6 30)) 1 = Inr (midnight (ymd2ord 2025 6 30 + 1))"
    by code_simp
  have k: "contains ''friday'' (lower ''Friday or tomorrow: June 30, 2025'') \<and>
           \<not> contains ''afternoon'' (lower ''Friday or tomorrow: June 30, 2025'') \<and>
           \<not> any_slot_keyword (lower ''Friday or tomorrow: June 30, 2025'') \<and>
           keyword_range 739427 (lower ''Friday or tomorrow: June 30, 2025'')
             = (Some (midnight 739428), Some (midnight 739429)) \<and>
           ymd2ord 2025 6 30 = 739432"
    by code_simp
  from explicit_date_overrides_keywords
         [OF d m n a, where now' = "\<lparr>ordinal = 739427, micros = 36000000000\<rparr>"] d k
  show ?thesis by simp
qed

section \<open>The slot matcher\<close>

subsection \<open>Suggestion mode\<close>

lemma alternatives_word: "(w, r) \<in> set (alternatives ws s) \<Longrightarrow> w \<in> set ws"
  by (auto simp: alternatives_def)

lemma first_path_mem: "first_path ps = Some p \<Longrightarrow> p \<in> set ps"
  by (auto simp: first_path_def split: list.splits)

lemma time_match_at_meridian:
  assumes "time_match_at s = Some (hour, meridian, n)"
  shows "meridian = ''am'' \<or> meridian = ''pm''"
proof -
  from first_path_mem [OF assms [unfolded time_match_at_def]]
  obtain r3 r4 where "(meridian, r4) \<in> set (alternatives [''am'', ''pm''] r3)"
    by auto
  from alternatives_word [OF this] show ?thesis by simp
qed

lemma time_finditer_meridian:
  "(hour, meridian) \<in> set (time_finditer skip s) \<Longrightarrow> meridian = ''am'' \<or> meridian = ''pm''"
proof (induction skip s rule: time_finditer.induct)
  case (3 c cs)
  show ?case
  proof (cases "time_match_at (c # cs)")
    case None
    with 3 show ?thesis by simp
  next
    case (Some m)
    obtain h mer n where m: "m = (h, mer, n)" by (cases m)
    from "3.prems" Some m have "(hour, meridian) = (h, mer) \<or> (hour, meridian) \<in> set (time_finditer (n - 1) cs)"
      by simp
    then show ?thesis
    proof
      assume "(hour, meridian) = (h, mer)"
      with Some m time_match_at_meridian show ?thesis by blast
    next
      assume "(hour, meridian) \<in> set (time_finditer (n - 1) cs)"
      with "3.IH"(2) Some m show ?thesis by auto
    qed
  qed
qed simp_all

lemma prioritized_slots_filter:
  "prioritized_slots message slots
     = filter (\<lambda>slot. local_hour slot \<in> set (requested_hours message)) slots"
  by (simp add: prioritized_slots_def)

text \<open>
  Claim C2. For every message and candidate list: the mentioned hours are the matches
  of the time pattern, scanned left to right, each converted to 24 hours (a match ends in
  "am" or "pm"; "pm" adds 12 except for 12, "am" turns 12 into 0); the priority subset is
  exactly the candidates, in their order, whose Asia/Kolkata hour is a mentioned hour;
  when it is not empty it is what gets presented, its first five at most, and (where no
  greeting intercepts the message) these are the slots handed to the model's suggestion
  prompt. For slots at 10:00, 14:00 and 16:00 and the text "book at 2pm" the priority
  subset is the 14:00 slot alone.
\<close>

theorem priority_subset:
  "requested_hours message = map hour_24 (time_finditer 0 message) \<and>
   (\<forall>(hour, meridian) \<in> set (time_finditer 0 message).
       (meridian = ''pm'' \<and> hour_24 (hour, meridian) = (if hour = 12 then 12 else int hour + 12)) \<or>
       (meridian = ''am'' \<and> hour_24 (hour, meridian) = (if hour = 12 then 0 else int hour))) \<and>
   prioritized_slots message slots
     = filter (\<lambda>slot. local_hour slot \<in> set (requested_hours message)) slots \<and>
   (prioritized_slots message slots \<noteq> [] \<longrightarrow>
      filtered_slots message slots = prioritized_slots message slots \<and>
      formatted_slots \<E> message slots
        = map (strftime \<E>) (take 5 (prioritized_slots message slots)) \<and>
      length (formatted_slots \<E> message slots) \<le> 5) \<and>
   (last_content (messages state) = Inr c \<and> history (messages state) = Inr hist \<and>
    \<not> list_ex (\<lambda>greet. contains greet (lower (strip c))) greetings \<and>
    \<not> contains ''good morning'' (lower (strip c)) \<and>
    prioritized_slots (lower (strip c)) (suggested_slots state) \<noteq> [] \<longrightarrow>
      fst (suggest_slots \<E> state)
        = [LLM (suggestion_prompt (lower (strip c))
                  (map (strftime \<E>)
                     (take 5 (prioritized_slots (lower (strip c)) (suggested_slots state))))
                  hist)]) \<and>
   prioritized_slots ''book at 2pm'' [slot_10, slot_14, slot_16] = [slot_14]"
proof (intro conjI)
  show "requested_hours message = map hour_24 (time_finditer 0 message)"
    by (simp add: requested_hours_def)
  show "\<forall>(hour, meridian) \<in> set (time_finditer 0 message).
       (meridian = ''pm'' \<and> hour_24 (hour, meridian) = (if hour = 12 then 12 else int hour + 12)) \<or>
       (meridian = ''am'' \<and> hour_24 (hour, meridian) = (if hour = 12 then 0 else int hour))"
    using time_finditer_meridian [of _ _ 0 message] by (auto simp: hour_24_def)
  show "prioritized_slots message slots
     = filter (\<lambda>slot. local_hour slot \<in> set (requested_hours message)) slots"
    by (rule prioritized_slots_filter)
  show "prioritized_slots message slots \<noteq> [] \<longrightarrow>
      filtered_slots message slots = prioritized_slots message slots \<and>
      formatted_slots \<E> message slots
        = map (strftime \<E>) (take 5 (prioritized_slots message slots)) \<and>
      length (formatted_slots \<E> message slots) \<le> 5"
    by (simp add: filtered_slots_def formatted_slots_def Let_def)
  show "last_content (messages state) = Inr c \<and> history (messages state) = Inr hist \<and>
    \<not> list_ex (\<lambda>greet. contains greet (lower (strip c))) greetings \<and>
    \<not> contains ''good morning'' (lower (strip c)) \<and>
    prioritized_slots (lower (strip c)) (suggested_slots state) \<noteq> [] \<longrightarrow>
      fst (suggest_slots \<E> state)
        = [LLM (suggestion_prompt (lower (strip c))
                  (map (strftime \<E>)
                     (take 5 (prioritized_slots (lower (strip c)) (suggested_slots state))))
                  hist)]"
  proof
    assume h: "last_content (messages state) = Inr c \<and> history (messages state) = Inr hist \<and>
      \<not> list_ex (\<lambda>greet. contains greet (lower (strip c))) greetings \<and>
      \<not> contains ''good morning'' (lower (strip c)) \<and>
      prioritized_slots (lower (strip c)) (suggested_slots state) \<noteq> []"
    then have ne: "suggested_slots state \<noteq> []"
      by (auto simp: prioritized_slots_def split: if_splits)
    have f: "formatted_slots \<E> (lower (strip c)) (suggested_slots state)
               = map (strftime \<E>) (take 5 (prioritized_slots (lower (strip c)) (suggested_slots state)))"
      using h by (simp add: filtered_slots_def formatted_slots_def Let_def)
    have fne: "formatted_slots \<E> (lower (strip c)) (suggested_slots state) \<noteq> []"
      unfolding f using h by simp
    show "fst (suggest_slots \<E> state)
        = [LLM (suggestion_prompt (lower (strip c))
                  (map (strftime \<E>)
                     (take 5 (prioritized_slots (lower (strip c)) (suggested_slots state))))
                  hist)]"
      using h ne fne unfolding f [symmetric]
      by (simp add: suggest_slots_def Let_def split: sum.splits)
  qed
  show "prioritized_slots ''book at 2pm'' [slot_10, slot_14, slot_16] = [slot_14]"
    by code_simp
qed

theorem priority_subset_witness:
  "requested_hours ''book at 2pm'' = [14] \<and>
   requested_hours ''12pm or 12am, then 9:30 am'' = [12, 0, 9] \<and>
   local_hour slot_10 = 10 \<and> local_hour slot_14 = 14 \<and> local_hour slot_16 = 16 \<and>
   prioritized_slots ''book at 2pm'' [slot_10, slot_14, slot_16] = [slot_14] \<and>
   filtered_slots ''book at 2pm'' [slot_10, slot_14, slot_16] = [slot_14] \<and>
   fst (suggest_slots (example_env (\<lambda>p. Inr ''How about 2:00 PM?'') (Ok []))
          (example_state ''book at 2pm'' [slot_10, slot_14, slot_16]))
     = [LLM (suggestion_prompt ''book at 2pm'' [''June 26, 2025, 02:00 PM''] [])]"
proof -
  let ?E = "example_env (\<lambda>p. Inr ''How about 2:00 PM?'') (Ok [])"
  let ?st = "example_state ''book at 2pm'' [slot_10, slot_14, slot_16]"
  have ev: "requested_hours ''book at 2pm'' = [14] \<and>
            requested_hours ''12pm or 12am, then 9:30 am'' = [12, 0, 9] \<and>
            local_hour slot_10 = 10 \<and> local_hour slot_14 = 14 \<and> local_hour slot_16 = 16"
    by code_simp
  have pre: "\<not> list_ex (\<lambda>greet. contains greet (lower (strip ''book at 2pm''))) greetings \<and>
             \<not> contains ''good morning'' (lower (strip ''book at 2pm'')) \<and>
             lower (strip ''book at 2pm'') = ''book at 2pm'' \<and>
             suggested_slots ?st = [slot_10, slot_14, slot_16] \<and>
             strftime ?E slot_14 = ''June 26, 2025, 02:00 PM''"
    by code_simp
  note t = priority_subset [where message = "''book at 2pm''" and slots = "[slot_10, slot_14, slot_16]"
             and \<E> = ?E and state = ?st and c = "''book at 2pm''" and hist = "[]"]
  note t6 = t [THEN conjunct2, THEN conjunct2, THEN conjunct2, THEN conjunct2, THEN conjunct2]
  note t5 = t [THEN conjunct2, THEN conjunct2, THEN conjunct2, THEN conjunct2, THEN conjunct1]
  note t4 = t [THEN conjunct2, THEN conjunct2, THEN conjunct2, THEN conjunct1]
  have p: "prioritized_slots ''book at 2pm'' [slot_10, slot_14, slot_16] = [slot_14]"
    by (rule t6)
  have "prioritized_slots ''book at 2pm'' [slot_10, slot_14, slot_16] \<noteq> []"
    by (simp only: p) simp
  from t4 [THEN mp, OF this, THEN conjunct1]
  have f: "filtered_slots ''book at 2pm'' [slot_10, slot_14, slot_16] = [slot_14]"
    by (simp only: p)
  have l: "lower (strip ''book at 2pm'') = ''book at 2pm''"
    and sl: "suggested_slots ?st = [slot_10, slot_14, slot_16]"
    and sf: "strftime ?E slot_14 = ''June 26, 2025, 02:00 PM''"
    using pre by blast+
  have hyp: "last_content (messages ?st) = Inr ''book at 2pm'' \<and>
             history (messages ?st) = Inr [] \<and>
             \<not> list_ex (\<lambda>greet. contains greet (lower (strip ''book at 2pm''))) greetings \<and>
             \<not> contains ''good morning'' (lower (strip ''book at 2pm'')) \<and>
             prioritized_slots (lower (strip ''book at 2pm'')) (suggested_slots ?st) \<noteq> []"
    using pre by (simp only: l sl p example_last_content example_history) simp
  from t5 [THEN mp, OF hyp]
  have s: "fst (suggest_slots ?E ?st)
     = [LLM (suggestion_prompt ''book at 2pm'' [''June 26, 2025, 02:00 PM''] [])]"
    by (simp only: l sl p) (simp add: sf)
  from ev p f s show ?thesis by blast
qed

subsection \<open>Selection mode of \<open>confirm_booking\<close>\<close>











lemma str_1_2: "str (Suc 0) = ''1''" "str (Suc (Suc 0)) = ''2''"
  by code_simp+



lemma index_by_containment:
  "slots \<noteq> [] \<Longrightarrow> select_slot \<E> ''12'' slots = Some (hd slots)"
  by (cases slots) (simp_all add: select_slot_def str_1_2)




end
